theory Spec2Isabelle
  imports Main "HOL-Library.AList"
begin

section \<open>Presence coordinator (devices.py, class TuyaBLECoordinator)\<close>

text \<open>
  The coordinator keeps two attributes, \<open>_disconnected\<close> and \<open>_unsub_disconnect\<close>.
  The second one holds the cancel callable that \<open>async_call_later\<close> returned, or None.
  The scheduler and the device registry of the host are collaborators; they are
  modelled as further components of the state the callbacks run on:
  \<^item> \<open>timers\<close>: the timers that were scheduled and have neither fired nor been
    cancelled, each with the delay it was scheduled with;
  \<^item> \<open>next_timer\<close>: the identity the next scheduled timer gets;
  \<^item> \<open>registry\<close>: the entries of the device registry;
  \<^item> \<open>registry_updates\<close>: the number of calls of \<open>async_update_device\<close>;
  \<^item> \<open>notifications\<close>: the number of calls of \<open>async_update_listeners\<close>.
\<close>

record TuyaBLEDevice =
  dev_address :: string
  dev_hardware_version :: string
  dev_device_version :: string
  dev_protocol_version :: string

text \<open>
  Of the DeviceInfo that \<open>get_device_info\<close> builds only the three fields the
  coordinator reads are kept: identifiers, hw_version and sw_version.
\<close>

record DeviceInfo =
  info_identifiers :: "(string \<times> string) list"
  info_hw_version :: string
  info_sw_version :: string

record DeviceEntry =
  entry_id :: string
  entry_identifiers :: "(string \<times> string) list"
  entry_sw_version :: string
  entry_hw_version :: string

record TuyaBLECoordinator =
  disconnected :: bool
  unsub_disconnect :: "nat option"
  timers :: "(nat \<times> nat) list"
  next_timer :: nat
  registry :: "DeviceEntry list"
  registry_updates :: nat
  notifications :: nat

text \<open>The integration's domain name, a constant of const.py.\<close>

definition DOMAIN :: string where
  "DOMAIN = ''tuya_ble''"

definition get_device_info :: "TuyaBLEDevice \<Rightarrow> DeviceInfo option" where
  "get_device_info device =
     Some \<lparr>info_identifiers = [(DOMAIN, dev_address device)],
           info_hw_version = dev_hardware_version device,
           info_sw_version =
             dev_device_version device @ '' (protocol '' @ dev_protocol_version device @ '')''\<rparr>"

text \<open>The registry's lookup by identifiers and its update of one entry.\<close>

definition async_get_device :: "DeviceEntry list \<Rightarrow> (string \<times> string) list \<Rightarrow> DeviceEntry option" where
  "async_get_device reg identifiers =
     find (\<lambda>e. \<exists>i \<in> set identifiers. i \<in> set (entry_identifiers e)) reg"

definition async_update_device :: "string \<Rightarrow> string \<Rightarrow> string \<Rightarrow> DeviceEntry list \<Rightarrow> DeviceEntry list" where
  "async_update_device did sw hw reg =
     map (\<lambda>e. if entry_id e = did
              then e\<lparr>entry_sw_version := sw, entry_hw_version := hw\<rparr> else e) reg"

text \<open>Calling the cancel callable of timer \<open>h\<close>: the scheduler drops the timer.\<close>

definition cancel_timer :: "nat \<Rightarrow> (nat \<times> nat) list \<Rightarrow> (nat \<times> nat) list" where
  "cancel_timer h ts = filter (\<lambda>t. fst t \<noteq> h) ts"

text \<open>
  The block of \<open>_async_handle_connect\<close> that runs on an edge, before the listeners
  are notified: the registry entry of the device, when there is one, gets the versions
  of the live device.
\<close>

definition update_device_registry :: "TuyaBLEDevice \<Rightarrow> TuyaBLECoordinator \<Rightarrow> TuyaBLECoordinator" where
  "update_device_registry device s =
     (case get_device_info device of
        None \<Rightarrow> s
      | Some device_info \<Rightarrow>
          (if info_identifiers device_info = [] then s
           else (case async_get_device (registry s) (info_identifiers device_info) of
                   None \<Rightarrow> s
                 | Some d \<Rightarrow>
                     s\<lparr>registry := async_update_device (entry_id d)
                                      (info_sw_version device_info)
                                      (info_hw_version device_info) (registry s),
                       registry_updates := registry_updates s + 1\<rparr>)))"

definition async_handle_connect :: "TuyaBLEDevice \<Rightarrow> TuyaBLECoordinator \<Rightarrow> TuyaBLECoordinator" where
  "async_handle_connect device s =
     (let s1 = (case unsub_disconnect s of
                  None \<Rightarrow> s
                | Some h \<Rightarrow> s\<lparr>timers := cancel_timer h (timers s)\<rparr>)
      in if disconnected s1
         then (let s2 = update_device_registry device (s1\<lparr>disconnected := False\<rparr>)
               in s2\<lparr>notifications := notifications s2 + 1\<rparr>)
         else s1)"

text \<open>\<open>_set_disconnected\<close>, the callback of the timer.\<close>

definition set_disconnected :: "TuyaBLECoordinator \<Rightarrow> TuyaBLECoordinator" where
  "set_disconnected s =
     s\<lparr>disconnected := True, unsub_disconnect := None,
       notifications := notifications s + 1\<rparr>"

text \<open>
  \<open>_async_handle_disconnect\<close>; \<open>delay\<close> is SET_DISCONNECTED_DELAY of const.py.
\<close>

definition async_handle_disconnect :: "nat \<Rightarrow> TuyaBLECoordinator \<Rightarrow> TuyaBLECoordinator" where
  "async_handle_disconnect delay s =
     (case unsub_disconnect s of
        None \<Rightarrow> s\<lparr>unsub_disconnect := Some (next_timer s),
                  timers := timers s @ [(next_timer s, delay)],
                  next_timer := next_timer s + 1\<rparr>
      | Some h \<Rightarrow> s)"

text \<open>
  The signals the coordinator sees. A timer fires only while the scheduler still holds
  it; firing removes it from the scheduler and runs the callback.
\<close>

datatype signal = ConnectSignal | DisconnectSignal | TimerFires nat

definition deliver :: "TuyaBLEDevice \<Rightarrow> nat \<Rightarrow> TuyaBLECoordinator \<Rightarrow> signal \<Rightarrow> TuyaBLECoordinator" where
  "deliver device delay s sig =
     (case sig of
        ConnectSignal \<Rightarrow> async_handle_connect device s
      | DisconnectSignal \<Rightarrow> async_handle_disconnect delay s
      | TimerFires h \<Rightarrow>
          (if h \<in> fst ` set (timers s)
           then set_disconnected (s\<lparr>timers := cancel_timer h (timers s)\<rparr>)
           else s))"

definition deliver_all :: "TuyaBLEDevice \<Rightarrow> nat \<Rightarrow> TuyaBLECoordinator \<Rightarrow> signal list \<Rightarrow> TuyaBLECoordinator" where
  "deliver_all device delay s sigs = foldl (deliver device delay) s sigs"

text \<open>The state \<open>__init__\<close> leaves, over a given registry.\<close>

definition init_coordinator :: "DeviceEntry list \<Rightarrow> TuyaBLECoordinator" where
  "init_coordinator reg =
     \<lparr>disconnected = True, unsub_disconnect = None, timers = [], next_timer = 0,
      registry = reg, registry_updates = 0, notifications = 0\<rparr>"

text \<open>A device and its registry entry, for concrete runs.\<close>

definition dev0 :: TuyaBLEDevice where
  "dev0 = \<lparr>dev_address = ''AA:BB:CC:DD:EE:FF'', dev_hardware_version = ''1.0'',
           dev_device_version = ''2.1'', dev_protocol_version = ''3.3''\<rparr>"

definition entry0 :: DeviceEntry where
  "entry0 = \<lparr>entry_id = ''d1'', entry_identifiers = [(''tuya_ble'', ''AA:BB:CC:DD:EE:FF'')],
             entry_sw_version = ''old'', entry_hw_version = ''old''\<rparr>"

section \<open>Python values and dictionaries\<close>

text \<open>
  The values that configuration data and the remote service's responses hold are those
  of JSON: None, booleans, integers, strings, lists and dictionaries with string keys
  (floating-point numbers are left out). A string is a list of characters with code
  points below 256. A dictionary is an association list in insertion order;
  \<open>d[k] = v\<close> is \<open>AList.update k v d\<close>, which keeps the position of a key that is
  present and appends a new one.
\<close>

datatype pyval =
    PNone
  | PBool bool
  | PInt int
  | PStr string
  | PList "pyval list"
  | PDict "(string \<times> pyval) list"

type_synonym pydict = "(string \<times> pyval) list"

text \<open>The truth value of a value, as \<open>if x\<close>, \<open>and\<close> and \<open>bool(x)\<close> take it.\<close>

fun truthy :: "pyval \<Rightarrow> bool" where
  "truthy PNone = False"
| "truthy (PBool b) = b"
| "truthy (PInt i) = (i \<noteq> 0)"
| "truthy (PStr s) = (s \<noteq> [])"
| "truthy (PList xs) = (xs \<noteq> [])"
| "truthy (PDict d) = (d \<noteq> [])"

text \<open>\<open>d.get(k)\<close>, \<open>d.get(k, dflt)\<close> and \<open>d.update(e)\<close>.\<close>

definition dict_get :: "pydict \<Rightarrow> string \<Rightarrow> pyval" where
  "dict_get d k = (case map_of d k of None \<Rightarrow> PNone | Some v \<Rightarrow> v)"

definition dict_get_default :: "pydict \<Rightarrow> string \<Rightarrow> pyval \<Rightarrow> pyval" where
  "dict_get_default d k dflt = (case map_of d k of None \<Rightarrow> dflt | Some v \<Rightarrow> v)"

definition dict_update :: "('k \<times> 'v) list \<Rightarrow> ('k \<times> 'v) list \<Rightarrow> ('k \<times> 'v) list" where
  "dict_update d e = fold (\<lambda>kv. AList.update (fst kv) (snd kv)) e d"

text \<open>\<open>sep.join(xs)\<close> on strings.\<close>

fun join :: "string \<Rightarrow> string list \<Rightarrow> string" where
  "join sep [] = []"
| "join sep [x] = x"
| "join sep (x # y # ys) = x @ sep @ join sep (y # ys)"

text \<open>
  \<open>json.dumps\<close> with its default arguments: separators \<open>", "\<close> and \<open>": "\<close>, and
  every character outside the printable ASCII range escaped.
\<close>

definition hex_digit :: "nat \<Rightarrow> char" where
  "hex_digit n = ''0123456789abcdef'' ! (n mod 16)"

definition json_escape_char :: "char \<Rightarrow> string" where
  "json_escape_char c =
     (if c = CHR 0x22 then [CHR 0x5C, CHR 0x22]
      else if c = CHR 0x5C then [CHR 0x5C, CHR 0x5C]
      else if c = CHR 0x0A then [CHR 0x5C, CHR ''n'']
      else if c = CHR 0x0D then [CHR 0x5C, CHR ''r'']
      else if c = CHR 0x09 then [CHR 0x5C, CHR ''t'']
      else if c = CHR 0x0C then [CHR 0x5C, CHR ''f'']
      else if c = CHR 0x08 then [CHR 0x5C, CHR ''b'']
      else if (of_char c :: nat) < 32 \<or> 126 < (of_char c :: nat)
      then [CHR 0x5C, CHR ''u'', CHR ''0'', CHR ''0'',
            hex_digit (of_char c div 16), hex_digit (of_char c)]
      else [c])"

definition json_string :: "string \<Rightarrow> string" where
  "json_string s = [CHR 0x22] @ concat (map json_escape_char s) @ [CHR 0x22]"

fun show_nat :: "nat \<Rightarrow> string" where
  "show_nat n = (if n < 10 then [hex_digit n] else show_nat (n div 10) @ [hex_digit (n mod 10)])"

definition show_int :: "int \<Rightarrow> string" where
  "show_int i = (if i < 0 then CHR ''-'' # show_nat (nat (- i)) else show_nat (nat i))"

fun json_dumps :: "pyval \<Rightarrow> string" where
  "json_dumps PNone = ''null''"
| "json_dumps (PBool b) = (if b then ''true'' else ''false'')"
| "json_dumps (PInt i) = show_int i"
| "json_dumps (PStr s) = json_string s"
| "json_dumps (PList xs) = ''['' @ join '', '' (map json_dumps xs) @ '']''"
| "json_dumps (PDict kvs) =
     ''{'' @ join '', '' (map (\<lambda>kv. json_string (fst kv) @ '': '' @ json_dumps (snd kv)) kvs) @ ''}''"

section \<open>Credential cache (cloud.py, manager.py)\<close>

subsection \<open>Field names\<close>

text \<open>
  Modelled from the spec: the names of the configuration fields and of the fields of the
  remote service's responses. const.py and the host's constant modules, which define
  CONF_ENDPOINT, CONF_UUID, TUYA_RESPONSE_SUCCESS and the others, are not among the
  sources; the values are the field names the specification uses.
\<close>

definition CONF_ENDPOINT :: string where "CONF_ENDPOINT = ''endpoint''"
definition CONF_ACCESS_ID :: string where "CONF_ACCESS_ID = ''access_id''"
definition CONF_ACCESS_SECRET :: string where "CONF_ACCESS_SECRET = ''access_secret''"
definition CONF_USERNAME :: string where "CONF_USERNAME = ''username''"
definition CONF_PASSWORD :: string where "CONF_PASSWORD = ''password''"
definition CONF_COUNTRY_CODE :: string where "CONF_COUNTRY_CODE = ''country_code''"
definition CONF_ADDRESS :: string where "CONF_ADDRESS = ''address''"
definition CONF_UUID :: string where "CONF_UUID = ''uuid''"
definition CONF_LOCAL_KEY :: string where "CONF_LOCAL_KEY = ''local_key''"
definition CONF_DEVICE_ID :: string where "CONF_DEVICE_ID = ''device_id''"
definition CONF_CATEGORY :: string where "CONF_CATEGORY = ''category''"
definition CONF_PRODUCT_ID :: string where "CONF_PRODUCT_ID = ''product_id''"
definition CONF_DEVICE_NAME :: string where "CONF_DEVICE_NAME = ''device_name''"
definition CONF_PRODUCT_MODEL :: string where "CONF_PRODUCT_MODEL = ''product_model''"
definition CONF_PRODUCT_NAME :: string where "CONF_PRODUCT_NAME = ''product_name''"
definition TUYA_RESPONSE_SUCCESS :: string where "TUYA_RESPONSE_SUCCESS = ''success''"
definition TUYA_RESPONSE_RESULT :: string where "TUYA_RESPONSE_RESULT = ''result''"
definition TUYA_FACTORY_INFO_MAC :: string where "TUYA_FACTORY_INFO_MAC = ''mac''"

definition CONF_TUYA_LOGIN_KEYS :: "string list" where
  "CONF_TUYA_LOGIN_KEYS =
     [CONF_ENDPOINT, CONF_ACCESS_ID, CONF_ACCESS_SECRET, CONF_USERNAME, CONF_PASSWORD,
      CONF_COUNTRY_CODE]"

definition CONF_TUYA_DEVICE_KEYS :: "string list" where
  "CONF_TUYA_DEVICE_KEYS =
     [CONF_UUID, CONF_LOCAL_KEY, CONF_DEVICE_ID, CONF_CATEGORY, CONF_PRODUCT_ID,
      CONF_DEVICE_NAME, CONF_PRODUCT_NAME, CONF_PRODUCT_MODEL]"

text \<open>The five fields the specification calls mandatory.\<close>

definition mandatory_fields :: "string list" where
  "mandatory_fields = [CONF_UUID, CONF_LOCAL_KEY, CONF_DEVICE_ID, CONF_CATEGORY, CONF_PRODUCT_ID]"

subsection \<open>Static methods of HASSTuyaBLEDeviceManager\<close>

text \<open>
  A method whose name begins with an underscore has here the name without it:
  \<open>_get_cache_key\<close> is \<open>get_cache_key\<close>, \<open>_fill_cache_item\<close> is \<open>fill_cache_item\<close>.
  The one exception is \<open>_login\<close>, which is \<open>login_impl\<close>, the class having a public
  method \<open>login\<close> as well.
\<close>

definition is_login_success :: "pydict \<Rightarrow> bool" where
  "is_login_success response = truthy (dict_get_default response TUYA_RESPONSE_SUCCESS (PBool False))"

definition get_cache_key :: "pydict \<Rightarrow> string" where
  "get_cache_key data =
     (let key_dict = map (\<lambda>key. (key, dict_get data key)) CONF_TUYA_LOGIN_KEYS
      in json_dumps (PDict key_dict))"

definition has_login :: "pydict \<Rightarrow> bool" where
  "has_login data = list_all (\<lambda>key. dict_get data key \<noteq> PNone) CONF_TUYA_LOGIN_KEYS"

definition has_credentials :: "pydict \<Rightarrow> bool" where
  "has_credentials data = list_all (\<lambda>key. dict_get data key \<noteq> PNone) CONF_TUYA_DEVICE_KEYS"

subsection \<open>TuyaBLEDeviceCredentials (manager.py)\<close>

text \<open>
  The dataclass declares the fields as strings, but nothing checks the declaration:
  a field holds whatever value the caller passes.
\<close>

record TuyaBLEDeviceCredentials =
  cred_uuid :: pyval
  cred_local_key :: pyval
  cred_device_id :: pyval
  cred_category :: pyval
  cred_product_id :: pyval
  cred_device_name :: pyval
  cred_product_model :: pyval
  cred_product_name :: pyval

text \<open>The class method \<open>create\<close>: it passes its arguments to the constructor.\<close>

definition create ::
  "pyval \<Rightarrow> pyval \<Rightarrow> pyval \<Rightarrow> pyval \<Rightarrow> pyval \<Rightarrow> pyval \<Rightarrow> pyval \<Rightarrow> pyval \<Rightarrow> TuyaBLEDeviceCredentials" where
  "create uuid local_key device_id category product_id device_name product_model product_name =
     \<lparr>cred_uuid = uuid, cred_local_key = local_key, cred_device_id = device_id,
      cred_category = category, cred_product_id = product_id,
      cred_device_name = device_name, cred_product_model = product_model,
      cred_product_name = product_name\<rparr>"

definition create_credentials_from_dict :: "pydict \<Rightarrow> TuyaBLEDeviceCredentials option" where
  "create_credentials_from_dict credentials =
     (let uuid = dict_get credentials CONF_UUID;
          local_key = dict_get credentials CONF_LOCAL_KEY;
          device_id = dict_get credentials CONF_DEVICE_ID;
          category = dict_get credentials CONF_CATEGORY;
          product_id = dict_get credentials CONF_PRODUCT_ID
      in if truthy uuid \<and> truthy local_key \<and> truthy device_id \<and> truthy category \<and>
            truthy product_id
         then Some (create uuid local_key device_id category product_id
                      (dict_get credentials CONF_DEVICE_NAME)
                      (dict_get credentials CONF_PRODUCT_MODEL)
                      (dict_get credentials CONF_PRODUCT_NAME))
         else None)"

subsection \<open>Exceptions, the remote service and the state\<close>

datatype error = KeyError | TypeError | AttributeError | IndexError

datatype CacheConfiguration = ENABLE | DISABLE

text \<open>
  A client object of the remote service's library: the arguments of its constructor and,
  once \<open>connect\<close> has run, the response from which the library takes its token.
\<close>

record TuyaOpenAPI =
  api_endpoint :: pyval
  api_access_id :: pyval
  api_access_secret :: pyval
  api_token_info :: pydict

text \<open>
  The calls that reach the remote service: \<open>api.connect(username, password, country_code)\<close>,
  \<open>api.get\<close> of the device list of the account, and \<open>api.get\<close> of the factory record
  of one device, with the value of \<open>device.get("id")\<close>.
\<close>

datatype request =
    Connect TuyaOpenAPI pyval pyval pyval
  | GetDevices TuyaOpenAPI
  | GetFactoryInfo TuyaOpenAPI pyval

text \<open>
  The host: \<open>respond\<close> is the remote service, which answers a request with a dictionary
  and may answer differently depending on the requests made before; the two other fields
  are what \<open>config_entries.async_entries\<close> lists for the two domains, the \<open>data\<close> of the
  account-level entries and the \<open>options\<close> of the device-level entries.
\<close>

record hass =
  respond :: "request list \<Rightarrow> request \<Rightarrow> pydict"
  tuya_entries :: "pydict list"
  ble_entries :: "pydict list"

text \<open>
  A cache item holds its login mapping by reference: \<open>_login\<close> stores the dictionary
  object it was given, not a copy. Dictionary objects that are shared in this way live in
  a heap, addressed by numbers.
\<close>

record TuyaCloudCacheItem =
  item_api :: "TuyaOpenAPI option"
  item_login :: nat
  item_credentials :: "(string \<times> pydict) list"

text \<open>
  The state: the heap, the next free address, the module-level \<open>_cache\<close> and the
  requests made so far.
\<close>

record world =
  heap :: "nat \<Rightarrow> pydict"
  next_ref :: nat
  cache :: "(string \<times> TuyaCloudCacheItem) list"
  io_trace :: "request list"

subsection \<open>Operations of Python on values\<close>

text \<open>\<open>len(x)\<close>; None stands for the TypeError of a value without length.\<close>

fun py_len :: "pyval \<Rightarrow> nat option" where
  "py_len (PStr s) = Some (length s)"
| "py_len (PList xs) = Some (length xs)"
| "py_len (PDict d) = Some (length d)"
| "py_len v = None"

text \<open>The elements a \<open>for\<close> loop runs over; None when the value is not an Iterable.\<close>

fun py_iter :: "pyval \<Rightarrow> pyval list option" where
  "py_iter (PList xs) = Some xs"
| "py_iter (PStr s) = Some (map (\<lambda>c. PStr [c]) s)"
| "py_iter (PDict d) = Some (map (\<lambda>kv. PStr (fst kv)) d)"
| "py_iter v = None"

text \<open>\<open>x.get(k)\<close> on a value: only a dictionary has the method.\<close>

fun py_get_attr :: "pyval \<Rightarrow> string \<Rightarrow> error + pyval" where
  "py_get_attr (PDict d) k = Inr (dict_get d k)"
| "py_get_attr v k = Inl AttributeError"

text \<open>\<open>x[0]\<close>.\<close>

fun py_index0 :: "pyval \<Rightarrow> error + pyval" where
  "py_index0 (PList xs) = (case xs of [] \<Rightarrow> Inl IndexError | x # _ \<Rightarrow> Inr x)"
| "py_index0 (PStr s) = (case s of [] \<Rightarrow> Inl IndexError | c # _ \<Rightarrow> Inr (PStr [c]))"
| "py_index0 (PDict d) = Inl KeyError"
| "py_index0 v = Inl TypeError"

fun is_prefix :: "string \<Rightarrow> string \<Rightarrow> bool" where
  "is_prefix [] ys = True"
| "is_prefix (x # xs) [] = False"
| "is_prefix (x # xs) (y # ys) = (x = y \<and> is_prefix xs ys)"

fun is_substring :: "string \<Rightarrow> string \<Rightarrow> bool" where
  "is_substring xs [] = (xs = [])"
| "is_substring xs (y # ys) = (is_prefix xs (y # ys) \<or> is_substring xs ys)"

text \<open>\<open>k in x\<close> for a string \<open>k\<close>.\<close>

fun py_contains :: "pyval \<Rightarrow> string \<Rightarrow> error + bool" where
  "py_contains (PDict d) k = Inr (k \<in> fst ` set d)"
| "py_contains (PStr s) k = Inr (is_substring k s)"
| "py_contains (PList xs) k = Inr (PStr k \<in> set xs)"
| "py_contains v k = Inl TypeError"

text \<open>\<open>x[k]\<close> for a string \<open>k\<close>.\<close>

fun py_getitem :: "pyval \<Rightarrow> string \<Rightarrow> error + pyval" where
  "py_getitem (PDict d) k = (case map_of d k of None \<Rightarrow> Inl KeyError | Some v \<Rightarrow> Inr v)"
| "py_getitem v k = Inl TypeError"

text \<open>
  \<open>str.upper\<close>, exact on ASCII; characters outside ASCII are kept as they are.
\<close>

definition upper_char :: "char \<Rightarrow> char" where
  "upper_char c =
     (if 97 \<le> (of_char c :: nat) \<and> (of_char c :: nat) \<le> 122
      then char_of ((of_char c :: nat) - 32) else c)"

text \<open>
  \<open>":".join(v[i : i + 2] for i in range(0, 12, 2)).upper()\<close>. The slices of a string
  are strings; those of a list are lists, which \<open>join\<close> refuses; a dictionary takes the
  slice for a key it does not have (Python 3.12 and later); other values have no slices.
\<close>

fun mac_address :: "pyval \<Rightarrow> error + string" where
  "mac_address (PStr s) =
     Inr (map upper_char (join '':'' (map (\<lambda>i. take 2 (drop i s)) [0, 2, 4, 6, 8, 10])))"
| "mac_address (PList xs) = Inl TypeError"
| "mac_address (PDict d) = Inl KeyError"
| "mac_address v = Inl TypeError"

subsection \<open>Login\<close>

text \<open>
  \<open>_login(data, cache_config)\<close>; \<open>data\<close> is the address of the dictionary. The argument
  \<open>len(access_secret)\<close> of the first debug message is evaluated before the remote call,
  and \<open>data[CONF_USERNAME]\<close> in the message of either branch after it. \<open>login_api\<close> is
  the client object the function constructs and \<open>login_request\<close> its call of \<open>connect\<close>;
  the default of every \<open>data.get\<close> is the empty string.
\<close>

definition login_api :: "pydict \<Rightarrow> TuyaOpenAPI" where
  "login_api d =
     \<lparr>api_endpoint = dict_get_default d CONF_ENDPOINT (PStr []),
      api_access_id = dict_get_default d CONF_ACCESS_ID (PStr []),
      api_access_secret = dict_get_default d CONF_ACCESS_SECRET (PStr []),
      api_token_info = []\<rparr>"

definition login_request :: "pydict \<Rightarrow> request" where
  "login_request d =
     Connect (login_api d)
       (dict_get_default d CONF_USERNAME (PStr []))
       (dict_get_default d CONF_PASSWORD (PStr []))
       (dict_get_default d CONF_COUNTRY_CODE (PStr []))"

definition login_impl ::
  "hass \<Rightarrow> nat \<Rightarrow> CacheConfiguration \<Rightarrow> world \<Rightarrow> (error + pydict) \<times> world" where
  "login_impl h data cache_config w =
     (let d = heap w data in
      if length d = 0 then (Inr [], w)
      else
        (case py_len (dict_get_default d CONF_ACCESS_SECRET (PStr [])) of
           None \<Rightarrow> (Inl TypeError, w)
         | Some n \<Rightarrow>
             (let req = login_request d;
                  response = respond h (io_trace w) req;
                  api = (login_api d)\<lparr>api_token_info := response\<rparr>;
                  w1 = w\<lparr>io_trace := io_trace w @ [req]\<rparr>
              in if is_login_success response
                 then (case map_of d CONF_USERNAME of
                         None \<Rightarrow> (Inl KeyError, w1)
                       | Some u \<Rightarrow>
                           (if cache_config = ENABLE
                            then (let cache_key = get_cache_key d
                                  in (case map_of (cache w1) cache_key of
                                        Some cache_item \<Rightarrow>
                                          (Inr response,
                                           w1\<lparr>cache := AList.update cache_key
                                                 (cache_item\<lparr>item_api := Some api,
                                                             item_login := data\<rparr>)
                                                 (cache w1)\<rparr>)
                                      | None \<Rightarrow>
                                          (Inr response,
                                           w1\<lparr>cache := AList.update cache_key
                                                 \<lparr>item_api = Some api, item_login = data,
                                                  item_credentials = []\<rparr>
                                                 (cache w1)\<rparr>)))
                            else (Inr response, w1)))
                 else (case map_of d CONF_USERNAME of
                         None \<Rightarrow> (Inl KeyError, w1)
                       | Some u \<Rightarrow> (Inr response, w1)))))"

text \<open>\<open>login\<close> and \<open>login_cached\<close>: both call \<open>_login\<close> on the manager's own data.\<close>

definition login :: "hass \<Rightarrow> nat \<Rightarrow> CacheConfiguration \<Rightarrow> world \<Rightarrow> (error + pydict) \<times> world" where
  "login h self_data cache_config w = login_impl h self_data cache_config w"

definition login_cached :: "hass \<Rightarrow> nat \<Rightarrow> CacheConfiguration \<Rightarrow> world \<Rightarrow> (error + pydict) \<times> world" where
  "login_cached h self_data cache_config w = login_impl h self_data cache_config w"

definition check_login :: "nat \<Rightarrow> world \<Rightarrow> bool" where
  "check_login self_data w = (map_of (cache w) (get_cache_key (heap w self_data)) \<noteq> None)"

subsection \<open>Filling a cache item\<close>

text \<open>
  From the \<open>result\<close> of a factory-info response to the address of the device: None when
  the device is skipped.
\<close>

definition factory_mac :: "pyval \<Rightarrow> error + string option" where
  "factory_mac fi_response_result =
     (if \<not> truthy fi_response_result then Inr None
      else (case py_len fi_response_result of
              None \<Rightarrow> Inl TypeError
            | Some n \<Rightarrow>
                (if \<not> 0 < n then Inr None
                 else (case py_index0 fi_response_result of
                         Inl e \<Rightarrow> Inl e
                       | Inr factory_info \<Rightarrow>
                           (if \<not> truthy factory_info then Inr None
                            else (case py_contains factory_info TUYA_FACTORY_INFO_MAC of
                                    Inl e \<Rightarrow> Inl e
                                  | Inr present \<Rightarrow>
                                      (if \<not> present then Inr None
                                       else (case py_getitem factory_info TUYA_FACTORY_INFO_MAC of
                                               Inl e \<Rightarrow> Inl e
                                             | Inr v \<Rightarrow>
                                                 (case mac_address v of
                                                    Inl e \<Rightarrow> Inl e
                                                  | Inr mac \<Rightarrow> Inr (Some mac))))))))))"

text \<open>The record stored for a device under its address.\<close>

definition device_record :: "string \<Rightarrow> pydict \<Rightarrow> pydict" where
  "device_record mac device =
     [(CONF_ADDRESS, PStr mac),
      (CONF_UUID, dict_get device ''uuid''),
      (CONF_LOCAL_KEY, dict_get device ''local_key''),
      (CONF_DEVICE_ID, dict_get device ''id''),
      (CONF_CATEGORY, dict_get device ''category''),
      (CONF_PRODUCT_ID, dict_get device ''product_id''),
      (CONF_DEVICE_NAME, dict_get device ''name''),
      (CONF_PRODUCT_MODEL, dict_get device ''model''),
      (CONF_PRODUCT_NAME, dict_get device ''product_name'')]"

text \<open>
  The loop over the devices. An exception ends it; what was stored before stays stored.
\<close>

fun fill_devices ::
  "hass \<Rightarrow> TuyaOpenAPI \<Rightarrow> pyval list \<Rightarrow> (string \<times> pydict) list \<Rightarrow> request list
     \<Rightarrow> error option \<times> (string \<times> pydict) list \<times> request list" where
  "fill_devices h api [] creds tr = (None, creds, tr)"
| "fill_devices h api (device # devices) creds tr =
     (case device of
        PDict dev \<Rightarrow>
          (let req = GetFactoryInfo api (dict_get dev ''id'');
               fi_response = respond h tr req;
               tr1 = tr @ [req]
           in (case factory_mac (dict_get fi_response TUYA_RESPONSE_RESULT) of
                 Inl e \<Rightarrow> (Some e, creds, tr1)
               | Inr None \<Rightarrow> fill_devices h api devices creds tr1
               | Inr (Some mac) \<Rightarrow>
                   fill_devices h api devices
                     (AList.update mac (device_record mac dev) creds) tr1))
      | _ \<Rightarrow> (Some AttributeError, creds, tr))"

definition fill_cache_item ::
  "hass \<Rightarrow> TuyaCloudCacheItem \<Rightarrow> request list
     \<Rightarrow> error option \<times> TuyaCloudCacheItem \<times> request list" where
  "fill_cache_item h item tr =
     (case item_api item of
        None \<Rightarrow> (None, item, tr)
      | Some api \<Rightarrow>
          (let req = GetDevices api;
               devices_response = respond h tr req;
               tr1 = tr @ [req]
           in if truthy (dict_get devices_response TUYA_RESPONSE_SUCCESS)
              then (case py_iter (dict_get devices_response TUYA_RESPONSE_RESULT) of
                      None \<Rightarrow> (None, item, tr1)
                    | Some devices \<Rightarrow>
                        (case fill_devices h api devices (item_credentials item) tr1 of
                           (e, creds, tr2) \<Rightarrow> (e, item\<lparr>item_credentials := creds\<rparr>, tr2)))
              else (None, item, tr1)))"

text \<open>
  \<open>_fill_cache_item\<close> on the item object that the cache holds under \<open>key\<close>: the object
  is changed in place.
\<close>

definition fill_cached :: "hass \<Rightarrow> string \<Rightarrow> TuyaCloudCacheItem \<Rightarrow> world \<Rightarrow> error option \<times> world" where
  "fill_cached h key item w =
     (case fill_cache_item h item (io_trace w) of
        (e, item', tr) \<Rightarrow> (e, w\<lparr>cache := AList.update key item' (cache w), io_trace := tr\<rparr>))"

subsection \<open>Resolving the credentials of an address\<close>

definition get_login_from_cache :: "nat \<Rightarrow> world \<Rightarrow> world" where
  "get_login_from_cache self_data w =
     (case cache w of
        [] \<Rightarrow> w
      | (key, cache_item) # rest \<Rightarrow>
          w\<lparr>heap := (heap w)(self_data :=
                 dict_update (heap w self_data) (heap w (item_login cache_item)))\<rparr>)"

definition find_cache_key_for_address :: "nat \<Rightarrow> string \<Rightarrow> world \<Rightarrow> string option" where
  "find_cache_key_for_address self_data address w =
     (if has_login (heap w self_data) then Some (get_cache_key (heap w self_data))
      else map_option fst
             (find (\<lambda>kv. map_of (item_credentials (snd kv)) address \<noteq> None) (cache w)))"

text \<open>
  \<open>_ensure_cache_item\<close>. The item it returns is the object of the cache, in the state
  the fill has left it in. A cache item is an instance of a dataclass that defines
  neither \<open>__bool__\<close> nor \<open>__len__\<close>, so \<open>if item\<close> asks whether the item is not None; a
  key is a string, so \<open>if not cache_key\<close> asks whether it is None or empty.
\<close>

definition fill_and_return ::
  "hass \<Rightarrow> string \<Rightarrow> TuyaCloudCacheItem \<Rightarrow> world
     \<Rightarrow> (error + TuyaCloudCacheItem option) \<times> world" where
  "fill_and_return h key item w =
     (case fill_cached h key item w of
        (Some e, w1) \<Rightarrow> (Inl e, w1)
      | (None, w1) \<Rightarrow> (Inr (map_of (cache w1) key), w1))"

definition ensure_cache_item ::
  "hass \<Rightarrow> nat \<Rightarrow> string option \<Rightarrow> world \<Rightarrow> (error + TuyaCloudCacheItem option) \<times> world" where
  "ensure_cache_item h self_data cache_key w =
     (case cache_key of
        None \<Rightarrow> (Inr None, w)
      | Some key \<Rightarrow>
          (if key = [] then (Inr None, w)
           else (case map_of (cache w) key of
                   Some item \<Rightarrow> fill_and_return h key item w
                 | None \<Rightarrow>
                     (case login h self_data ENABLE w of
                        (Inl e, w1) \<Rightarrow> (Inl e, w1)
                      | (Inr response, w1) \<Rightarrow>
                          (if is_login_success response
                           then (case map_of (cache w1) key of
                                   Some item \<Rightarrow> fill_and_return h key item w1
                                 | None \<Rightarrow> (Inr None, w1))
                           else (Inr None, w1))))))"

text \<open>
  The first part of \<open>get_device_credentials\<close>: the values of its variables \<open>item\<close> and
  \<open>credentials\<close> when the test \<open>if not credentials\<close> is reached.
\<close>

definition resolve ::
  "hass \<Rightarrow> nat \<Rightarrow> string \<Rightarrow> bool \<Rightarrow> world
     \<Rightarrow> (error + TuyaCloudCacheItem option \<times> pydict option) \<times> world" where
  "resolve h self_data address force_update w =
     (if \<not> force_update \<and> has_credentials (heap w self_data)
      then (Inr (None, Some (heap w self_data)), w)
      else
        (let cache_key = find_cache_key_for_address self_data address w;
             key_truthy = (case cache_key of None \<Rightarrow> False | Some key \<Rightarrow> key \<noteq> []);
             key_cached = (case cache_key of None \<Rightarrow> None | Some key \<Rightarrow> map_of (cache w) key);
             found = (if force_update \<or> (key_truthy \<and> key_cached = None)
                      then ensure_cache_item h self_data cache_key w
                      else if key_truthy then (Inr key_cached, w)
                      else (Inr None, w))
         in (case found of
               (Inl e, w1) \<Rightarrow> (Inl e, w1)
             | (Inr None, w1) \<Rightarrow> (Inr (None, None), w1)
             | (Inr (Some item), w1) \<Rightarrow>
                 (Inr (Some item, map_of (item_credentials item) address), w1))))"

text \<open>The second part: the test, the construction of the result and \<open>save_data\<close>.\<close>

definition save_resolved :: "nat \<Rightarrow> TuyaCloudCacheItem option \<Rightarrow> pydict \<Rightarrow> world \<Rightarrow> world" where
  "save_resolved self_data item credentials w =
     (let w1 = (case item of
                  None \<Rightarrow> w
                | Some it \<Rightarrow>
                    w\<lparr>heap := (heap w)(self_data :=
                           dict_update (heap w self_data) (heap w (item_login it)))\<rparr>)
      in w1\<lparr>heap := (heap w1)(self_data := dict_update (heap w1 self_data) credentials)\<rparr>)"

definition get_device_credentials ::
  "hass \<Rightarrow> nat \<Rightarrow> string \<Rightarrow> bool \<Rightarrow> bool \<Rightarrow> world
     \<Rightarrow> (error + TuyaBLEDeviceCredentials option) \<times> world" where
  "get_device_credentials h self_data address force_update save_data w =
     (case resolve h self_data address force_update w of
        (Inl e, w1) \<Rightarrow> (Inl e, w1)
      | (Inr (item, None), w1) \<Rightarrow> (Inr None, w1)
      | (Inr (item, Some credentials), w1) \<Rightarrow>
          (if credentials = [] then (Inr None, w1)
           else (let result = create_credentials_from_dict credentials
                 in (Inr result,
                     if save_data then save_resolved self_data item credentials w1 else w1))))"

subsection \<open>The sweep over the configuration records\<close>

text \<open>
  One round of either loop of \<open>build_cache\<close>; \<open>data\<close> is the address of the dictionary
  that \<open>build_cache\<close> creates once and refills for every record.
\<close>

definition sweep_entry :: "hass \<Rightarrow> nat \<Rightarrow> pydict \<Rightarrow> world \<Rightarrow> error option \<times> world" where
  "sweep_entry h data entry w =
     (let w0 = w\<lparr>heap := (heap w)(data := dict_update [] entry)\<rparr>;
          d = heap w0 data
      in if \<not> list_all (\<lambda>k. k \<in> fst ` set d) CONF_TUYA_LOGIN_KEYS then (None, w0)
         else
           (let key = get_cache_key d;
                item = map_of (cache w0) key
            in if (case item of None \<Rightarrow> True
                   | Some it \<Rightarrow> length (item_credentials it) = 0)
               then (case login_impl h data ENABLE w0 of
                       (Inl e, w1) \<Rightarrow> (Some e, w1)
                     | (Inr response, w1) \<Rightarrow>
                         (if is_login_success response
                          then (case map_of (cache w1) key of
                                  None \<Rightarrow> (None, w1)
                                | Some item1 \<Rightarrow>
                                    (if length (item_credentials item1) = 0
                                     then fill_cached h key item1 w1
                                     else (None, w1)))
                          else (None, w1)))
               else (None, w0)))"

fun sweep :: "hass \<Rightarrow> nat \<Rightarrow> pydict list \<Rightarrow> world \<Rightarrow> error option \<times> world" where
  "sweep h data [] w = (None, w)"
| "sweep h data (entry # entries) w =
     (case sweep_entry h data entry w of
        (Some e, w1) \<Rightarrow> (Some e, w1)
      | (None, w1) \<Rightarrow> sweep h data entries w1)"

definition build_cache :: "hass \<Rightarrow> world \<Rightarrow> error option \<times> world" where
  "build_cache h w =
     (let data = next_ref w;
          w0 = w\<lparr>heap := (heap w)(data := []), next_ref := next_ref w + 1\<rparr>
      in (case sweep h data (tuya_entries h) w0 of
            (Some e, w1) \<Rightarrow> (Some e, w1)
          | (None, w1) \<Rightarrow> sweep h data (ble_entries h) w1))"

subsection \<open>Counting requests\<close>

text \<open>The number of logins and of device-list fetches among the requests made.\<close>

fun is_connect :: "request \<Rightarrow> bool" where
  "is_connect (Connect api u p c) = True"
| "is_connect r = False"

fun is_get_devices :: "request \<Rightarrow> bool" where
  "is_get_devices (GetDevices api) = True"
| "is_get_devices r = False"

definition logins :: "request list \<Rightarrow> nat" where
  "logins tr = length (filter is_connect tr)"

definition fetches :: "request list \<Rightarrow> nat" where
  "fetches tr = length (filter is_get_devices tr)"

section \<open>Concrete inputs\<close>

text \<open>Two configuration mappings with the same six login fields.\<close>

definition login_a :: pydict where
  "login_a = [(''endpoint'', PStr ''E''), (''access_id'', PStr ''A''),
     (''access_secret'', PStr ''S''), (''username'', PStr ''U''),
     (''password'', PStr ''P''), (''country_code'', PStr ''C'')]"

definition login_b :: pydict where
  "login_b = [(''address'', PStr ''AA:BB:CC:DD:EE:FF''), (''country_code'', PStr ''C''),
     (''password'', PStr ''P''), (''username'', PStr ''U''),
     (''access_secret'', PStr ''S''), (''access_id'', PStr ''A''),
     (''endpoint'', PStr ''E''), (''uuid'', PStr ''u1'')]"


text \<open>
  A remote service that accepts every login and lists one device, and one that rejects
  every login.
\<close>

definition remote_ok :: "request list \<Rightarrow> request \<Rightarrow> pydict" where
  "remote_ok tr req =
     (case req of
        Connect api u p c \<Rightarrow>
          [(''success'', PBool True), (''result'', PDict [(''uid'', PStr ''uid1'')])]
      | GetDevices api \<Rightarrow>
          [(''success'', PBool True),
           (''result'', PList [PDict [(''id'', PStr ''dev1''), (''uuid'', PStr ''uu''),
              (''local_key'', PStr ''lk''), (''category'', PStr ''cat''),
              (''product_id'', PStr ''pid''), (''name'', PStr ''Lock''),
              (''model'', PStr ''M1''), (''product_name'', PStr ''Smart Lock'')]])]
      | GetFactoryInfo api i \<Rightarrow>
          [(''success'', PBool True),
           (''result'', PList [PDict [(''id'', i), (''mac'', PStr ''aabbccddeeff'')]])])"

definition remote_fail :: "request list \<Rightarrow> request \<Rightarrow> pydict" where
  "remote_fail tr req =
     [(''success'', PBool False), (''code'', PInt 1004), (''msg'', PStr ''sign invalid'')]"

definition hass_ok :: hass where
  "hass_ok = \<lparr>respond = remote_ok, tuya_entries = [login_a], ble_entries = [login_b]\<rparr>"

definition hass_fail :: hass where
  "hass_fail = \<lparr>respond = remote_fail, tuya_entries = [login_a], ble_entries = [login_b]\<rparr>"

text \<open>A state with an empty cache in which the manager's data, at address 0, is \<open>d\<close>.\<close>

definition world0 :: "pydict \<Rightarrow> world" where
  "world0 d = \<lparr>heap = (\<lambda>r. [])(0 := d), next_ref = 1, cache = [], io_trace = []\<rparr>"

text \<open>
  Local data with the five mandatory fields and a complete login, but without the three
  descriptive fields.
\<close>

definition five_fields :: pydict where
  "five_fields = login_a @
     [(''uuid'', PStr ''uu''), (''local_key'', PStr ''lk''), (''device_id'', PStr ''dev1''),
      (''category'', PStr ''cat''), (''product_id'', PStr ''pid'')]"

text \<open>Local data with all eight device fields.\<close>

definition eight_fields :: pydict where
  "eight_fields =
     [(''uuid'', PStr ''uu''), (''local_key'', PStr ''lk''), (''device_id'', PStr ''dev1''),
      (''category'', PStr ''cat''), (''product_id'', PStr ''pid''),
      (''device_name'', PStr ''Lock''), (''product_name'', PStr ''Smart Lock''),
      (''product_model'', PStr ''M1'')]"

text \<open>
  A cached record with an empty uuid, and a state whose cache holds it under the key of
  \<open>login_a\<close>, the manager's data at address 0 being \<open>login_a\<close> and the login mapping of
  the cache item, at address 1, being \<open>login_b\<close>.
\<close>

definition incomplete_record :: pydict where
  "incomplete_record =
     [(''address'', PStr ''AA:BB:CC:DD:EE:FF''), (''uuid'', PStr []),
      (''local_key'', PStr ''lk''), (''device_id'', PStr ''dev1''),
      (''category'', PStr ''cat''), (''product_id'', PStr ''pid''),
      (''device_name'', PNone), (''product_model'', PNone), (''product_name'', PNone)]"

definition incomplete_item :: TuyaCloudCacheItem where
  "incomplete_item =
     \<lparr>item_api = None, item_login = 1,
      item_credentials = [(''AA:BB:CC:DD:EE:FF'', incomplete_record)]\<rparr>"

definition world_incomplete :: world where
  "world_incomplete =
     \<lparr>heap = (\<lambda>r. [])(0 := login_a, 1 := login_b), next_ref = 2,
      cache = [(get_cache_key login_a, incomplete_item)], io_trace = []\<rparr>"

text \<open>A cache item that already holds a record for another address.\<close>

definition stale_item :: TuyaCloudCacheItem where
  "stale_item =
     \<lparr>item_api = Some (login_api login_a), item_login = 0,
      item_credentials =
        [(''11:22:33:44:55:66'', [(''address'', PStr ''11:22:33:44:55:66'')])]\<rparr>"

section \<open>Properties of the presence coordinator\<close>

lemma find_map_same:
  "(\<And>x. P (f x) = P x) \<Longrightarrow> find P (map f xs) = map_option f (find P xs)"
  by (induction xs) auto

lemma async_get_device_updated:
  "async_get_device reg ids = Some d \<Longrightarrow>
   async_get_device (async_update_device (entry_id d) sw hw reg) ids
     = Some (d\<lparr>entry_sw_version := sw, entry_hw_version := hw\<rparr>)"
  unfolding async_get_device_def async_update_device_def
  by (subst find_map_same) auto

lemma update_device_registry_frame:
  "disconnected (update_device_registry device s) = disconnected s"
  "unsub_disconnect (update_device_registry device s) = unsub_disconnect s"
  "timers (update_device_registry device s) = timers s"
  "next_timer (update_device_registry device s) = next_timer s"
  "notifications (update_device_registry device s) = notifications s"
  by (simp_all add: update_device_registry_def get_device_info_def split: option.splits)

lemma connect_unsub:
  "unsub_disconnect (async_handle_connect device s) = unsub_disconnect s"
  by (simp add: async_handle_connect_def Let_def update_device_registry_frame
      split: option.splits)

lemma connect_next_timer:
  "next_timer (async_handle_connect device s) = next_timer s"
  by (simp add: async_handle_connect_def Let_def update_device_registry_frame
      split: option.splits)

lemma connect_timers:
  "timers (async_handle_connect device s) =
     (case unsub_disconnect s of None \<Rightarrow> timers s | Some h \<Rightarrow> cancel_timer h (timers s))"
  by (simp add: async_handle_connect_def Let_def update_device_registry_frame
      split: option.splits)

lemma connect_connected:
  "\<not> disconnected (async_handle_connect device s)"
  by (simp add: async_handle_connect_def Let_def update_device_registry_frame
      split: option.splits)

lemma connect_notifications:
  "notifications (async_handle_connect device s) =
     notifications s + (if disconnected s then 1 else 0)"
  by (simp add: async_handle_connect_def Let_def update_device_registry_frame
      split: option.splits)

lemma disconnect_pending_noop:
  "unsub_disconnect s = Some h \<Longrightarrow> async_handle_disconnect delay s = s"
  by (simp add: async_handle_disconnect_def)

lemma disconnect_arms:
  "unsub_disconnect s = None \<Longrightarrow>
   unsub_disconnect (async_handle_disconnect delay s) = Some (next_timer s) \<and>
   timers (async_handle_disconnect delay s) = timers s @ [(next_timer s, delay)] \<and>
   disconnected (async_handle_disconnect delay s) = disconnected s"
  by (simp add: async_handle_disconnect_def)

lemma timer_fires_once:
  assumes "h \<in> fst ` set (timers s)"
  shows "disconnected (deliver device delay s (TimerFires h))"
    and "unsub_disconnect (deliver device delay s (TimerFires h)) = None"
    and "notifications (deliver device delay s (TimerFires h)) = notifications s + 1"
    and "deliver device delay (deliver device delay s (TimerFires h)) (TimerFires h)
           = deliver device delay s (TimerFires h)"
  using assms by (auto simp: deliver_def set_disconnected_def cancel_timer_def)

text \<open>
  C2. After a connect signal has cancelled a pending disconnect timer, the coordinator
  still holds the cancelled timer's handle. On the signals connect, disconnect, connect
  the coordinator is connected, the scheduler holds no timer, and a further disconnect
  signal changes nothing: it starts no timer.
\<close>

theorem stale_handle_starts_no_timer:
  "let s = deliver_all device delay (init_coordinator reg)
             [ConnectSignal, DisconnectSignal, ConnectSignal]
   in \<not> disconnected s \<and> timers s = [] \<and> unsub_disconnect s = Some 0 \<and>
      deliver device delay s DisconnectSignal = s"
proof -
  define s1 where "s1 = async_handle_connect device (init_coordinator reg)"
  define s2 where "s2 = async_handle_disconnect delay s1"
  define s3 where "s3 = async_handle_connect device s2"
  have u1: "unsub_disconnect s1 = None" and n1: "next_timer s1 = 0" and t1: "timers s1 = []"
    by (simp_all add: s1_def connect_unsub connect_next_timer connect_timers
        init_coordinator_def)
  have u2: "unsub_disconnect s2 = Some 0" and t2: "timers s2 = [(0, delay)]"
    using disconnect_arms [OF u1, of delay] by (simp_all add: s2_def n1 t1)
  have u3: "unsub_disconnect s3 = Some 0" and t3: "timers s3 = []"
    and d3: "\<not> disconnected s3"
    by (simp_all add: s3_def connect_unsub connect_timers connect_connected u2 t2
        cancel_timer_def)
  have "deliver device delay s3 DisconnectSignal = s3"
    by (simp add: deliver_def disconnect_pending_noop [OF u3])
  moreover have "deliver_all device delay (init_coordinator reg)
             [ConnectSignal, DisconnectSignal, ConnectSignal] = s3"
    by (simp add: deliver_all_def deliver_def s1_def s2_def s3_def)
  ultimately show ?thesis using u3 t3 d3 by (simp add: Let_def)
qed


lemma update_device_registry_found:
  "async_get_device (registry s) [(DOMAIN, dev_address device)] = Some d \<Longrightarrow>
   async_get_device (registry (update_device_registry device s)) [(DOMAIN, dev_address device)]
     = Some (d\<lparr>entry_sw_version :=
                 dev_device_version device @ '' (protocol '' @
                 dev_protocol_version device @ '')'',
               entry_hw_version := dev_hardware_version device\<rparr>) \<and>
   registry_updates (update_device_registry device s) = registry_updates s + 1"
  by (simp add: update_device_registry_def get_device_info_def async_get_device_updated)

lemma update_device_registry_missing:
  "async_get_device (registry s) [(DOMAIN, dev_address device)] = None \<Longrightarrow>
   update_device_registry device s = s"
  by (simp add: update_device_registry_def get_device_info_def)

lemma connect_registry:
  "registry (async_handle_connect device s) =
     (if disconnected s then registry (update_device_registry device s) else registry s)"
  "registry_updates (async_handle_connect device s) =
     (if disconnected s then registry_updates (update_device_registry device s)
      else registry_updates s)"
  by (simp_all add: async_handle_connect_def Let_def update_device_registry_def
      get_device_info_def split: option.splits)

text \<open>
  C8. A connect signal cancels the timer of the handle the coordinator holds and leaves
  the coordinator connected. When the coordinator was disconnected (an edge), the
  listeners are notified once and the registry entry of the device, when there is one,
  gets the versions of the live device by one update call. When the coordinator was
  already connected, there is no notification and the registry is untouched.
\<close>

theorem connect_signal_effects:
  "(case unsub_disconnect s of None \<Rightarrow> timers (async_handle_connect device s) = timers s
     | Some h \<Rightarrow> h \<notin> fst ` set (timers (async_handle_connect device s))) \<and>
   \<not> disconnected (async_handle_connect device s) \<and>
   (if disconnected s
    then notifications (async_handle_connect device s) = notifications s + 1 \<and>
         (case async_get_device (registry s) [(DOMAIN, dev_address device)] of
            None \<Rightarrow> registry (async_handle_connect device s) = registry s \<and>
                    registry_updates (async_handle_connect device s) = registry_updates s
          | Some d \<Rightarrow>
              async_get_device (registry (async_handle_connect device s))
                  [(DOMAIN, dev_address device)]
                = Some (d\<lparr>entry_sw_version :=
                            dev_device_version device @ '' (protocol '' @
                            dev_protocol_version device @ '')'',
                          entry_hw_version := dev_hardware_version device\<rparr>) \<and>
              registry_updates (async_handle_connect device s) = registry_updates s + 1)
    else notifications (async_handle_connect device s) = notifications s \<and>
         registry (async_handle_connect device s) = registry s \<and>
         registry_updates (async_handle_connect device s) = registry_updates s)"
proof -
  have a: "case unsub_disconnect s of None \<Rightarrow> timers (async_handle_connect device s) = timers s
     | Some h \<Rightarrow> h \<notin> fst ` set (timers (async_handle_connect device s))"
    by (auto simp: connect_timers cancel_timer_def split: option.splits)
  have b: "\<not> disconnected (async_handle_connect device s)"
    by (rule connect_connected)
  have c: "notifications (async_handle_connect device s) =
     notifications s + (if disconnected s then 1 else 0)"
    by (rule connect_notifications)
  have d: "disconnected s \<Longrightarrow>
     (case async_get_device (registry s) [(DOMAIN, dev_address device)] of
            None \<Rightarrow> registry (async_handle_connect device s) = registry s \<and>
                    registry_updates (async_handle_connect device s) = registry_updates s
          | Some d \<Rightarrow>
              async_get_device (registry (async_handle_connect device s))
                  [(DOMAIN, dev_address device)]
                = Some (d\<lparr>entry_sw_version :=
                            dev_device_version device @ '' (protocol '' @
                            dev_protocol_version device @ '')'',
                          entry_hw_version := dev_hardware_version device\<rparr>) \<and>
              registry_updates (async_handle_connect device s) = registry_updates s + 1)"
    by (simp add: connect_registry update_device_registry_found
        update_device_registry_missing split: option.splits)
  show ?thesis using a b c d by (simp add: connect_registry)
qed

theorem connect_signal_effects_witness:
  "0 \<notin> fst ` set (timers (async_handle_connect dev0
       (async_handle_disconnect 5 (init_coordinator [entry0])))) \<and>
   notifications (async_handle_connect dev0
       (async_handle_disconnect 5 (init_coordinator [entry0]))) = 1 \<and>
   registry_updates (async_handle_connect dev0
       (async_handle_disconnect 5 (init_coordinator [entry0]))) = 1 \<and>
   notifications (async_handle_connect dev0 (async_handle_connect dev0
       (async_handle_disconnect 5 (init_coordinator [entry0])))) = 1 \<and>
   registry_updates (async_handle_connect dev0 (async_handle_connect dev0
       (async_handle_disconnect 5 (init_coordinator [entry0])))) = 1"
  using connect_signal_effects [where s = "async_handle_disconnect 5 (init_coordinator [entry0])"
      and device = dev0]
    connect_signal_effects [where s = "async_handle_connect dev0
       (async_handle_disconnect 5 (init_coordinator [entry0]))" and device = dev0]
  by (simp add: async_handle_disconnect_def init_coordinator_def async_get_device_def
      dev0_def entry0_def DOMAIN_def)

section \<open>Properties of the credential cache\<close>

lemmas conf_defs = CONF_ENDPOINT_def CONF_ACCESS_ID_def CONF_ACCESS_SECRET_def
  CONF_USERNAME_def CONF_PASSWORD_def CONF_COUNTRY_CODE_def CONF_ADDRESS_def CONF_UUID_def
  CONF_LOCAL_KEY_def CONF_DEVICE_ID_def CONF_CATEGORY_def CONF_PRODUCT_ID_def
  CONF_DEVICE_NAME_def CONF_PRODUCT_MODEL_def CONF_PRODUCT_NAME_def
  TUYA_RESPONSE_SUCCESS_def TUYA_RESPONSE_RESULT_def TUYA_FACTORY_INFO_MAC_def

lemma get_cache_key_cong:
  "(\<And>k. k \<in> set CONF_TUYA_LOGIN_KEYS \<Longrightarrow> dict_get d1 k = dict_get d2 k) \<Longrightarrow>
   get_cache_key d1 = get_cache_key d2"
  unfolding get_cache_key_def Let_def
  by (rule arg_cong [where f = "\<lambda>x. json_dumps (PDict x)"]) simp

lemma dict_get_update_None:
  "map_of d k = None \<Longrightarrow> dict_get (AList.update k PNone d) k' = dict_get d k'"
  by (simp add: dict_get_def update_conv')

text \<open>
  C3. Two configuration mappings that give the same values for the six login fields
  (an absent field counting as None) have the same cache key, whatever else they hold
  and in whatever order; and a field that is absent is read as None: adding it with the
  value None does not change the key. The function has no failing branch.
\<close>

theorem cache_key_reads_six_fields:
  "((\<forall>k \<in> set CONF_TUYA_LOGIN_KEYS. dict_get d1 k = dict_get d2 k) \<longrightarrow>
      get_cache_key d1 = get_cache_key d2) \<and>
   (map_of d k = None \<longrightarrow> get_cache_key (AList.update k PNone d) = get_cache_key d)"
proof (intro conjI impI)
  assume "\<forall>k \<in> set CONF_TUYA_LOGIN_KEYS. dict_get d1 k = dict_get d2 k"
  then show "get_cache_key d1 = get_cache_key d2"
    by (intro get_cache_key_cong) blast
next
  assume "map_of d k = None"
  then show "get_cache_key (AList.update k PNone d) = get_cache_key d"
    by (intro get_cache_key_cong) (simp add: dict_get_update_None)
qed

theorem cache_key_reads_six_fields_witness:
  "get_cache_key login_a = get_cache_key login_b \<and>
   get_cache_key [(''endpoint'', PStr ''E''), (''username'', PNone)]
     = get_cache_key [(''endpoint'', PStr ''E'')]"
  using cache_key_reads_six_fields [of login_a login_b "[(''endpoint'', PStr ''E'')]" "''username''"]
  by (simp add: CONF_TUYA_LOGIN_KEYS_def conf_defs dict_get_def login_a_def login_b_def)


lemma mandatory_all_truthy:
  "(\<forall>k \<in> set mandatory_fields. truthy (dict_get c k)) \<longleftrightarrow>
   truthy (dict_get c CONF_UUID) \<and> truthy (dict_get c CONF_LOCAL_KEY) \<and>
   truthy (dict_get c CONF_DEVICE_ID) \<and> truthy (dict_get c CONF_CATEGORY) \<and>
   truthy (dict_get c CONF_PRODUCT_ID)"
  by (simp add: mandatory_fields_def)

text \<open>
  C6 (as amended). A credentials mapping is rejected, by the result None, exactly when
  one of the five mandatory fields is absent, None or empty; otherwise the record is
  built from the fields of the mapping.
\<close>

theorem incomplete_credentials_give_none:
  "(create_credentials_from_dict c = None \<longleftrightarrow>
      (\<exists>k \<in> set mandatory_fields. \<not> truthy (dict_get c k))) \<and>
   ((\<forall>k \<in> set mandatory_fields. truthy (dict_get c k)) \<longrightarrow>
      create_credentials_from_dict c =
        Some (create (dict_get c CONF_UUID) (dict_get c CONF_LOCAL_KEY)
                (dict_get c CONF_DEVICE_ID) (dict_get c CONF_CATEGORY)
                (dict_get c CONF_PRODUCT_ID) (dict_get c CONF_DEVICE_NAME)
                (dict_get c CONF_PRODUCT_MODEL) (dict_get c CONF_PRODUCT_NAME)))"
  using mandatory_all_truthy [of c]
  by (auto simp: create_credentials_from_dict_def Let_def)

text \<open>
  C6 (as stated) fails: \<open>create\<close> builds a record from a None uuid, and a mapping
  without the uuid field gives the result None; neither raises.
\<close>

theorem create_accepts_missing_field:
  "create PNone (PStr ''key'') (PStr ''dev'') (PStr ''cat'') (PStr ''prod'') PNone PNone PNone
     = \<lparr>cred_uuid = PNone, cred_local_key = PStr ''key'', cred_device_id = PStr ''dev'',
        cred_category = PStr ''cat'', cred_product_id = PStr ''prod'',
        cred_device_name = PNone, cred_product_model = PNone, cred_product_name = PNone\<rparr> \<and>
   create_credentials_from_dict
     [(''local_key'', PStr ''key''), (''device_id'', PStr ''dev''),
      (''category'', PStr ''cat''), (''product_id'', PStr ''prod'')] = None"
  by (simp add: create_def create_credentials_from_dict_def dict_get_def conf_defs)

theorem incomplete_credentials_give_none_witness:
  "create_credentials_from_dict
     [(''uuid'', PStr ''''), (''local_key'', PStr ''key''), (''device_id'', PStr ''dev''),
      (''category'', PStr ''cat''), (''product_id'', PStr ''prod'')] = None \<and>
   create_credentials_from_dict
     [(''uuid'', PStr ''u''), (''local_key'', PStr ''key''), (''device_id'', PStr ''dev''),
      (''category'', PStr ''cat''), (''product_id'', PStr ''prod'')]
     = Some (create (PStr ''u'') (PStr ''key'') (PStr ''dev'') (PStr ''cat'') (PStr ''prod'')
               PNone PNone PNone)"
  using incomplete_credentials_give_none [of "[(''uuid'', PStr ''''), (''local_key'', PStr ''key''), (''device_id'', PStr ''dev''),
      (''category'', PStr ''cat''), (''product_id'', PStr ''prod'')]"]
    incomplete_credentials_give_none [of "[(''uuid'', PStr ''u''), (''local_key'', PStr ''key''), (''device_id'', PStr ''dev''),
      (''category'', PStr ''cat''), (''product_id'', PStr ''prod'')]"]
  by (simp add: mandatory_fields_def dict_get_def conf_defs)

subsection \<open>Login\<close>

lemma login_impl_empty:
  "heap w data = [] \<Longrightarrow> login_impl h data cfg w = (Inr [], w)"
  by (simp add: login_impl_def)

lemma login_impl_unsized:
  "heap w data \<noteq> [] \<Longrightarrow>
   py_len (dict_get_default (heap w data) CONF_ACCESS_SECRET (PStr [])) = None \<Longrightarrow>
   login_impl h data cfg w = (Inl TypeError, w)"
  by (simp add: login_impl_def)

lemma login_impl_no_username:
  "heap w data \<noteq> [] \<Longrightarrow>
   py_len (dict_get_default (heap w data) CONF_ACCESS_SECRET (PStr [])) = Some n \<Longrightarrow>
   map_of (heap w data) CONF_USERNAME = None \<Longrightarrow>
   login_impl h data cfg w =
     (Inl KeyError, w\<lparr>io_trace := io_trace w @ [login_request (heap w data)]\<rparr>)"
  by (simp add: login_impl_def Let_def)

lemma login_impl_failure:
  "heap w data \<noteq> [] \<Longrightarrow>
   py_len (dict_get_default (heap w data) CONF_ACCESS_SECRET (PStr [])) = Some n \<Longrightarrow>
   map_of (heap w data) CONF_USERNAME = Some u \<Longrightarrow>
   \<not> is_login_success (respond h (io_trace w) (login_request (heap w data))) \<Longrightarrow>
   login_impl h data cfg w =
     (Inr (respond h (io_trace w) (login_request (heap w data))),
      w\<lparr>io_trace := io_trace w @ [login_request (heap w data)]\<rparr>)"
  by (simp add: login_impl_def Let_def)

lemma login_impl_success_enable:
  "heap w data \<noteq> [] \<Longrightarrow>
   py_len (dict_get_default (heap w data) CONF_ACCESS_SECRET (PStr [])) = Some n \<Longrightarrow>
   map_of (heap w data) CONF_USERNAME = Some u \<Longrightarrow>
   is_login_success (respond h (io_trace w) (login_request (heap w data))) \<Longrightarrow>
   login_impl h data ENABLE w =
     (Inr (respond h (io_trace w) (login_request (heap w data))),
      w\<lparr>io_trace := io_trace w @ [login_request (heap w data)],
        cache := AList.update (get_cache_key (heap w data))
          (case map_of (cache w) (get_cache_key (heap w data)) of
             Some cache_item \<Rightarrow>
               cache_item\<lparr>item_api := Some ((login_api (heap w data))
                   \<lparr>api_token_info := respond h (io_trace w) (login_request (heap w data))\<rparr>),
                 item_login := data\<rparr>
           | None \<Rightarrow>
               \<lparr>item_api = Some ((login_api (heap w data))
                   \<lparr>api_token_info := respond h (io_trace w) (login_request (heap w data))\<rparr>),
                item_login = data, item_credentials = []\<rparr>)
          (cache w)\<rparr>)"
  by (simp add: login_impl_def Let_def split: option.splits)

lemma login_impl_success_disable:
  "heap w data \<noteq> [] \<Longrightarrow>
   py_len (dict_get_default (heap w data) CONF_ACCESS_SECRET (PStr [])) = Some n \<Longrightarrow>
   map_of (heap w data) CONF_USERNAME = Some u \<Longrightarrow>
   login_impl h data DISABLE w =
     (Inr (respond h (io_trace w) (login_request (heap w data))),
      w\<lparr>io_trace := io_trace w @ [login_request (heap w data)]\<rparr>)"
  by (simp add: login_impl_def Let_def)
text \<open>
  C5. For a non-empty login mapping that has the username key: when the remote call is
  made (the access secret has a length, so the debug message before the call does not
  fail) and the service reports failure, \<open>_login\<close> returns the response of the
  service as a value and changes nothing but the list of requests made: the cache and the
  heap stay as they were, whatever the cache configuration.
\<close>

theorem login_failure_leaves_store:
  assumes "heap w data \<noteq> []"
    and "map_of (heap w data) CONF_USERNAME = Some u"
    and "py_len (dict_get_default (heap w data) CONF_ACCESS_SECRET (PStr [])) = Some n"
    and "\<not> is_login_success (respond h (io_trace w) (login_request (heap w data)))"
  shows "login_impl h data cfg w =
     (Inr (respond h (io_trace w) (login_request (heap w data))),
      w\<lparr>io_trace := io_trace w @ [login_request (heap w data)]\<rparr>)"
  by (rule login_impl_failure [OF assms(1) assms(3) assms(2) assms(4)])

theorem login_failure_leaves_store_witness:
  "login_impl hass_fail 0 ENABLE (world0 login_a) =
     (Inr [(''success'', PBool False), (''code'', PInt 1004), (''msg'', PStr ''sign invalid'')],
      (world0 login_a)\<lparr>io_trace := [login_request login_a]\<rparr>)"
  using login_failure_leaves_store [of "world0 login_a" 0 "PStr ''U''" 1 hass_fail ENABLE]
  by (simp add: world0_def login_a_def hass_fail_def remote_fail_def is_login_success_def
      dict_get_default_def conf_defs)

text \<open>
  C10 (as amended). For a mapping without the username key, \<open>_login\<close>, and with it
  \<open>login\<close> and \<open>login_cached\<close>, returns the empty result without a request when the
  mapping is empty; raises a TypeError without a request when the access secret has no
  length; and otherwise raises a KeyError after the one request, whether the service
  accepted or rejected the login, leaving the cache as it was.
\<close>

theorem login_without_username:
  assumes "map_of (heap w data) CONF_USERNAME = None"
  shows "login_impl h data cfg w =
     (if heap w data = [] then (Inr [], w)
      else (case py_len (dict_get_default (heap w data) CONF_ACCESS_SECRET (PStr [])) of
              None \<Rightarrow> (Inl TypeError, w)
            | Some n \<Rightarrow>
                (Inl KeyError, w\<lparr>io_trace := io_trace w @ [login_request (heap w data)]\<rparr>))) \<and>
     login h data cfg w = login_impl h data cfg w \<and>
     login_cached h data cfg w = login_impl h data cfg w"
  using assms
  by (simp add: login_impl_empty login_impl_unsized login_impl_no_username login_def
      login_cached_def split: option.splits)

theorem login_without_username_witness:
  "login_impl hass_ok 0 ENABLE (world0 [(''password'', PStr ''P'')]) =
     (Inl KeyError,
      (world0 [(''password'', PStr ''P'')])\<lparr>io_trace := [login_request [(''password'', PStr ''P'')]]\<rparr>) \<and>
   login_impl hass_fail 0 ENABLE (world0 [(''password'', PStr ''P'')]) =
     (Inl KeyError,
      (world0 [(''password'', PStr ''P'')])\<lparr>io_trace := [login_request [(''password'', PStr ''P'')]]\<rparr>) \<and>
   login_impl hass_ok 0 ENABLE (world0 []) = (Inr [], world0 [])"
  using login_without_username [of "world0 [(''password'', PStr ''P'')]" 0 hass_ok ENABLE]
    login_without_username [of "world0 [(''password'', PStr ''P'')]" 0 hass_fail ENABLE]
    login_without_username [of "world0 []" 0 hass_ok ENABLE]
  by (simp add: world0_def dict_get_default_def conf_defs)

text \<open>
  C10 (as stated) fails: the mapping that holds only an access secret of None is not
  empty and has no username, and \<open>_login\<close> raises a TypeError on it before any request.
\<close>

theorem login_type_error_before_call:
  "map_of [(''access_secret'', PNone)] CONF_USERNAME = None \<and>
   login_impl hass_ok 0 ENABLE (world0 [(''access_secret'', PNone)]) =
     (Inl TypeError, world0 [(''access_secret'', PNone)]) \<and>
   io_trace (world0 [(''access_secret'', PNone)]) = []"
  by (simp add: login_impl_def world0_def dict_get_default_def conf_defs)

subsection \<open>Resolution\<close>

lemma dict_update_subset:
  "distinct (map fst d) \<Longrightarrow> set e \<subseteq> set d \<Longrightarrow> dict_update d e = d"
  unfolding dict_update_def
  by (induction e) (auto simp: update_triv)

lemma has_credentials_eight:
  "has_credentials d \<longleftrightarrow>
     dict_get d CONF_UUID \<noteq> PNone \<and> dict_get d CONF_LOCAL_KEY \<noteq> PNone \<and>
     dict_get d CONF_DEVICE_ID \<noteq> PNone \<and> dict_get d CONF_CATEGORY \<noteq> PNone \<and>
     dict_get d CONF_PRODUCT_ID \<noteq> PNone \<and> dict_get d CONF_DEVICE_NAME \<noteq> PNone \<and>
     dict_get d CONF_PRODUCT_NAME \<noteq> PNone \<and> dict_get d CONF_PRODUCT_MODEL \<noteq> PNone"
  by (simp add: has_credentials_def CONF_TUYA_DEVICE_KEYS_def)

lemma has_credentials_nonempty: "has_credentials d \<Longrightarrow> d \<noteq> []"
  by (auto simp: has_credentials_eight dict_get_def)

lemma resolve_local:
  "has_credentials (heap w self_data) \<Longrightarrow>
   resolve h self_data address False w = (Inr (None, Some (heap w self_data)), w)"
  by (simp add: resolve_def)

text \<open>
  C1 (as amended). \<open>_has_credentials\<close> holds exactly when all eight device fields are
  present and not None. When it holds for the manager's data and \<open>force_update\<close> is
  false, \<open>get_device_credentials\<close> returns what \<open>_create_credentials_from_dict\<close> makes
  of the data; the cache and the list of requests are as before, and the only change is
  that with \<open>save_data\<close> the data is updated with its own copy, which leaves a dictionary
  as it is.
\<close>

theorem local_credentials_skip_cache:
  "(has_credentials d \<longleftrightarrow>
     dict_get d CONF_UUID \<noteq> PNone \<and> dict_get d CONF_LOCAL_KEY \<noteq> PNone \<and>
     dict_get d CONF_DEVICE_ID \<noteq> PNone \<and> dict_get d CONF_CATEGORY \<noteq> PNone \<and>
     dict_get d CONF_PRODUCT_ID \<noteq> PNone \<and> dict_get d CONF_DEVICE_NAME \<noteq> PNone \<and>
     dict_get d CONF_PRODUCT_NAME \<noteq> PNone \<and> dict_get d CONF_PRODUCT_MODEL \<noteq> PNone) \<and>
   (has_credentials (heap w self_data) \<longrightarrow>
      get_device_credentials h self_data address False save_data w =
        (Inr (create_credentials_from_dict (heap w self_data)),
         if save_data
         then w\<lparr>heap := (heap w)(self_data :=
                  dict_update (heap w self_data) (heap w self_data))\<rparr>
         else w)) \<and>
   (distinct (map fst (heap w self_data)) \<longrightarrow>
      dict_update (heap w self_data) (heap w self_data) = heap w self_data)"
proof (intro conjI impI)
  show "has_credentials d \<longleftrightarrow>
     dict_get d CONF_UUID \<noteq> PNone \<and> dict_get d CONF_LOCAL_KEY \<noteq> PNone \<and>
     dict_get d CONF_DEVICE_ID \<noteq> PNone \<and> dict_get d CONF_CATEGORY \<noteq> PNone \<and>
     dict_get d CONF_PRODUCT_ID \<noteq> PNone \<and> dict_get d CONF_DEVICE_NAME \<noteq> PNone \<and>
     dict_get d CONF_PRODUCT_NAME \<noteq> PNone \<and> dict_get d CONF_PRODUCT_MODEL \<noteq> PNone"
    by (rule has_credentials_eight)
next
  assume hc: "has_credentials (heap w self_data)"
  show "get_device_credentials h self_data address False save_data w =
        (Inr (create_credentials_from_dict (heap w self_data)),
         if save_data
         then w\<lparr>heap := (heap w)(self_data :=
                  dict_update (heap w self_data) (heap w self_data))\<rparr>
         else w)"
    using has_credentials_nonempty [OF hc]
    by (simp add: get_device_credentials_def resolve_local [OF hc] save_resolved_def)
next
  assume "distinct (map fst (heap w self_data))"
  then show "dict_update (heap w self_data) (heap w self_data) = heap w self_data"
    by (simp add: dict_update_subset)
qed

theorem local_credentials_skip_cache_witness:
  "has_credentials eight_fields \<and>
   get_device_credentials hass_ok 0 ''AA:BB:CC:DD:EE:FF'' False True (world0 eight_fields) =
     (Inr (Some (create (PStr ''uu'') (PStr ''lk'') (PStr ''dev1'') (PStr ''cat'') (PStr ''pid'')
                   (PStr ''Lock'') (PStr ''M1'') (PStr ''Smart Lock''))),
      world0 eight_fields)"
  using local_credentials_skip_cache [where d = eight_fields and w = "world0 eight_fields"
      and self_data = 0 and h = hass_ok and address = "''AA:BB:CC:DD:EE:FF''"
      and save_data = True]
  by (simp add: world0_def eight_fields_def dict_get_def conf_defs
      create_credentials_from_dict_def)

text \<open>
  C1 (as stated) fails: data that holds the five mandatory fields and a complete login,
  but not the three descriptive fields, does not pass \<open>_has_credentials\<close>, and the call
  makes three requests to the remote service.
\<close>

theorem five_fields_reach_the_network:
  "\<not> has_credentials five_fields \<and>
   list_all (\<lambda>k. dict_get five_fields k \<noteq> PNone) mandatory_fields \<and>
   length (io_trace (snd (get_device_credentials hass_ok 0 ''AA:BB:CC:DD:EE:FF'' False False
      (world0 five_fields)))) = 3"
  by code_simp

lemma create_credentials_none_iff:
  "create_credentials_from_dict c = None \<longleftrightarrow>
     (\<exists>k \<in> set mandatory_fields. \<not> truthy (dict_get c k))"
  by (auto simp: create_credentials_from_dict_def Let_def mandatory_fields_def)

text \<open>
  C9. When the resolution has found a cache item and, under the address, a record that
  is not empty but lacks a mandatory field, a call with \<open>save_data\<close> returns None and
  has updated the manager's data with the login mapping of the item and then with the
  record.
\<close>

theorem incomplete_record_is_saved:
  assumes "resolve h self_data address force_update w = (Inr (Some item, Some credentials), w1)"
    and "credentials \<noteq> []"
    and "\<exists>k \<in> set mandatory_fields. \<not> truthy (dict_get credentials k)"
  shows "get_device_credentials h self_data address force_update True w =
     (Inr None,
      w1\<lparr>heap := (heap w1)(self_data :=
            dict_update (dict_update (heap w1 self_data) (heap w1 (item_login item)))
              credentials)\<rparr>)"
  using assms(2,3)
  by (simp add: get_device_credentials_def assms(1) save_resolved_def
      create_credentials_none_iff [symmetric])

lemma get_cache_key_nonempty: "get_cache_key d \<noteq> []"
  by (simp add: get_cache_key_def)

lemma resolve_incomplete:
  "resolve hass_ok 0 ''AA:BB:CC:DD:EE:FF'' False world_incomplete =
     (Inr (Some incomplete_item, Some incomplete_record), world_incomplete)"
  by (simp add: resolve_def world_incomplete_def find_cache_key_for_address_def
      has_credentials_def has_login_def CONF_TUYA_DEVICE_KEYS_def CONF_TUYA_LOGIN_KEYS_def
      login_a_def dict_get_def conf_defs incomplete_item_def Let_def
      get_cache_key_nonempty)

theorem incomplete_record_is_saved_witness:
  "fst (get_device_credentials hass_ok 0 ''AA:BB:CC:DD:EE:FF'' False True world_incomplete)
     = Inr None \<and>
   heap (snd (get_device_credentials hass_ok 0 ''AA:BB:CC:DD:EE:FF'' False True
     world_incomplete)) 0 =
     dict_update (dict_update login_a login_b) incomplete_record \<and>
   heap world_incomplete 0 = login_a"
  using incomplete_record_is_saved [OF resolve_incomplete]
  by (simp add: incomplete_record_def mandatory_fields_def dict_get_def conf_defs
      world_incomplete_def incomplete_item_def)

subsection \<open>Filling\<close>

lemma dict_update_Nil [simp]: "dict_update d [] = d"
  by (simp add: dict_update_def)

lemma dict_update_Cons [simp]:
  "dict_update d (kv # e) = dict_update (AList.update (fst kv) (snd kv) d) e"
  by (simp add: dict_update_def)

lemma dict_update_snoc:
  "dict_update d (e @ [kv]) = AList.update (fst kv) (snd kv) (dict_update d e)"
  by (simp add: dict_update_def)

lemma keys_dict_update:
  "fst ` set (dict_update d e) = fst ` set d \<union> fst ` set e"
  by (induction e arbitrary: d) (auto simp: dom_update)

lemma update_swap_present:
  "k \<noteq> k' \<Longrightarrow> k \<in> fst ` set al \<Longrightarrow>
   AList.update k v (AList.update k' v' al) = AList.update k' v' (AList.update k v al)"
  by (induction al) auto

lemma update_absent:
  "k \<notin> fst ` set al \<Longrightarrow> AList.update k v al = al @ [(k, v)]"
  by (induction al) auto

lemma update_append_present:
  "k \<in> fst ` set al \<Longrightarrow> AList.update k v (al @ z) = AList.update k v al @ z"
  by (induction al) auto

lemma dict_update_append_present:
  "fst ` set e \<subseteq> fst ` set d \<Longrightarrow> dict_update (d @ z) e = dict_update d e @ z"
proof (induction e arbitrary: d)
  case Nil
  then show ?case by simp
next
  case (Cons kv e)
  then have "fst kv \<in> fst ` set d" by simp
  moreover have "fst ` set e \<subseteq> fst ` set (AList.update (fst kv) (snd kv) d)"
    using Cons.prems by (auto simp: dom_update)
  ultimately show ?case
    using Cons.IH by (simp add: update_append_present)
qed

lemma update_over_dict_update:
  "k \<in> fst ` set d \<Longrightarrow>
   AList.update k v (dict_update (AList.update k v' d) e) = AList.update k v (dict_update d e)"
proof (induction e arbitrary: d v')
  case Nil
  then show ?case by simp
next
  case (Cons kv e)
  show ?case
  proof (cases "fst kv = k")
    case True
    then show ?thesis by simp
  next
    case False
    have "AList.update (fst kv) (snd kv) (AList.update k v' d)
            = AList.update k v' (AList.update (fst kv) (snd kv) d)"
      by (rule update_swap_present [symmetric]) (use False Cons.prems in auto)
    moreover have "k \<in> fst ` set (AList.update (fst kv) (snd kv) d)"
      using Cons.prems by (simp add: dom_update)
    ultimately show ?thesis using Cons.IH by simp
  qed
qed

lemma dict_update_idem: "dict_update (dict_update d e) e = dict_update d e"
proof (induction e rule: rev_induct)
  case Nil
  then show ?case by simp
next
  case (snoc kv e)
  define u where "u = dict_update d e"
  have ih: "dict_update u e = u" using snoc by (simp add: u_def)
  have goal: "AList.update (fst kv) (snd kv)
                (dict_update (AList.update (fst kv) (snd kv) u) e)
              = AList.update (fst kv) (snd kv) u"
  proof (cases "fst kv \<in> fst ` set u")
    case True
    then show ?thesis by (simp add: update_over_dict_update ih)
  next
    case False
    have sub: "fst ` set e \<subseteq> fst ` set u"
      by (auto simp: u_def keys_dict_update)
    have a: "AList.update (fst kv) (snd kv) u = u @ [(fst kv, snd kv)]"
      using False by (rule update_absent)
    have b: "dict_update (u @ [(fst kv, snd kv)]) e = u @ [(fst kv, snd kv)]"
      using sub by (simp add: dict_update_append_present ih)
    have c: "map_of (u @ [(fst kv, snd kv)]) (fst kv) = Some (snd kv)"
      using False by (simp add: map_add_Some_iff map_of_eq_None_iff)
    have "AList.update (fst kv) (snd kv) (dict_update (AList.update (fst kv) (snd kv) u) e)
            = AList.update (fst kv) (snd kv) (dict_update (u @ [(fst kv, snd kv)]) e)"
      by (simp only: a)
    also have "\<dots> = AList.update (fst kv) (snd kv) (u @ [(fst kv, snd kv)])"
      by (simp only: b)
    also have "\<dots> = u @ [(fst kv, snd kv)]"
      by (rule update_triv [OF c])
    also have "\<dots> = AList.update (fst kv) (snd kv) u"
      by (simp only: a)
    finally show ?thesis .
  qed
  then show ?case by (simp add: dict_update_snoc u_def)
qed

lemma fill_devices_keys:
  "fst ` set creds \<subseteq> fst ` set (fst (snd (fill_devices h api devices creds tr)))"
proof (induction devices arbitrary: creds tr)
  case Nil
  then show ?case by simp
next
  case (Cons device devices)
  show ?case
  proof (cases device)
    case (PDict dev)
    show ?thesis
    proof (cases "factory_mac (dict_get (respond h tr (GetFactoryInfo api (dict_get dev ''id'')))
                     TUYA_RESPONSE_RESULT)")
      case (Inl e)
      then show ?thesis using PDict by (simp add: Let_def)
    next
      case (Inr m)
      show ?thesis
      proof (cases m)
        case None
        then show ?thesis using PDict Inr Cons.IH by (simp add: Let_def)
      next
        case (Some mac)
        have "fst ` set creds \<subseteq> fst ` set (AList.update mac (device_record mac dev) creds)"
          by (auto simp: dom_update)
        also have "\<dots> \<subseteq> fst ` set (fst (snd (fill_devices h api devices
                      (AList.update mac (device_record mac dev) creds)
                      (tr @ [GetFactoryInfo api (dict_get dev ''id'')]))))"
          by (rule Cons.IH)
        finally show ?thesis using PDict Inr Some by (simp add: Let_def)
      qed
    qed
  qed simp_all
qed

lemma fill_cache_item_keys:
  "fst ` set (item_credentials item)
     \<subseteq> fst ` set (item_credentials (fst (snd (fill_cache_item h item tr))))"
  by (simp add: fill_cache_item_def Let_def split_beta fill_devices_keys split: option.splits)
lemma fill_devices_updates:
  assumes stateless: "\<And>t t' r. respond h t r = respond h t' r"
  shows "\<exists>us e. \<forall>creds tr.
            fst (fill_devices h api devices creds tr) = e \<and>
            fst (snd (fill_devices h api devices creds tr)) = dict_update creds us"
proof (induction devices)
  case Nil
  have "\<forall>creds tr. fst (fill_devices h api [] creds tr) = None \<and>
          fst (snd (fill_devices h api [] creds tr)) = dict_update creds []"
    by simp
  then show ?case by blast
next
  case (Cons device devices)
  then obtain us e where ih: "\<And>creds tr.
      fst (fill_devices h api devices creds tr) = e \<and>
      fst (snd (fill_devices h api devices creds tr)) = dict_update creds us"
    by blast
  show ?case
  proof (cases device)
    case (PDict dev)
    define req where "req = GetFactoryInfo api (dict_get dev ''id'')"
    have step: "fill_devices h api (device # devices) creds tr =
        (case factory_mac (dict_get (respond h [] req) TUYA_RESPONSE_RESULT) of
           Inl e \<Rightarrow> (Some e, creds, tr @ [req])
         | Inr None \<Rightarrow> fill_devices h api devices creds (tr @ [req])
         | Inr (Some mac) \<Rightarrow>
             fill_devices h api devices
               (AList.update mac (device_record mac dev) creds) (tr @ [req]))" for creds tr
    proof -
      have "respond h tr (GetFactoryInfo api (dict_get dev ''id'')) = respond h [] req"
        unfolding req_def by (rule stateless)
      then show ?thesis using PDict unfolding req_def by (simp add: Let_def)
    qed
    show ?thesis
    proof (cases "factory_mac (dict_get (respond h [] req) TUYA_RESPONSE_RESULT)")
      case (Inl e')
      have "\<forall>creds tr. fst (fill_devices h api (device # devices) creds tr) = Some e' \<and>
          fst (snd (fill_devices h api (device # devices) creds tr)) = dict_update creds []"
        unfolding step by (simp add: Inl)
      then show ?thesis by blast
    next
      case (Inr m)
      show ?thesis
      proof (cases m)
        case None
        have "\<forall>creds tr. fst (fill_devices h api (device # devices) creds tr) = e \<and>
          fst (snd (fill_devices h api (device # devices) creds tr)) = dict_update creds us"
          unfolding step by (simp add: Inr None ih)
        then show ?thesis by blast
      next
        case (Some mac)
        have "\<forall>creds tr. fst (fill_devices h api (device # devices) creds tr) = e \<and>
          fst (snd (fill_devices h api (device # devices) creds tr))
            = dict_update creds ((mac, device_record mac dev) # us)"
          unfolding step by (simp add: Inr Some ih)
        then show ?thesis by blast
      qed
    qed
  next
    case PNone
    have "\<forall>creds tr. fst (fill_devices h api (device # devices) creds tr) = Some AttributeError \<and>
          fst (snd (fill_devices h api (device # devices) creds tr)) = dict_update creds []"
      using PNone by simp
    then show ?thesis by blast
  next
    case (PBool b)
    have "\<forall>creds tr. fst (fill_devices h api (device # devices) creds tr) = Some AttributeError \<and>
          fst (snd (fill_devices h api (device # devices) creds tr)) = dict_update creds []"
      using PBool by simp
    then show ?thesis by blast
  next
    case (PInt i)
    have "\<forall>creds tr. fst (fill_devices h api (device # devices) creds tr) = Some AttributeError \<and>
          fst (snd (fill_devices h api (device # devices) creds tr)) = dict_update creds []"
      using PInt by simp
    then show ?thesis by blast
  next
    case (PStr s)
    have "\<forall>creds tr. fst (fill_devices h api (device # devices) creds tr) = Some AttributeError \<and>
          fst (snd (fill_devices h api (device # devices) creds tr)) = dict_update creds []"
      using PStr by simp
    then show ?thesis by blast
  next
    case (PList xs)
    have "\<forall>creds tr. fst (fill_devices h api (device # devices) creds tr) = Some AttributeError \<and>
          fst (snd (fill_devices h api (device # devices) creds tr)) = dict_update creds []"
      using PList by simp
    then show ?thesis by blast
  qed
qed

lemma fill_devices_twice:
  assumes stateless: "\<And>t t' r. respond h t r = respond h t' r"
  shows "fst (snd (fill_devices h api devices
                 (fst (snd (fill_devices h api devices creds tr))) tr'))
           = fst (snd (fill_devices h api devices creds tr)) \<and>
         fst (fill_devices h api devices (fst (snd (fill_devices h api devices creds tr))) tr')
           = fst (fill_devices h api devices creds tr)"
proof -
  obtain us e where u: "\<And>creds tr.
      fst (fill_devices h api devices creds tr) = e \<and>
      fst (snd (fill_devices h api devices creds tr)) = dict_update creds us"
    using fill_devices_updates [OF stateless, of api devices] by blast
  show ?thesis by (simp add: u dict_update_idem)
qed

lemma fill_cache_item_twice:
  assumes stateless: "\<And>t t' r. respond h t r = respond h t' r"
  shows "fst (snd (fill_cache_item h (fst (snd (fill_cache_item h item tr))) tr'))
           = fst (snd (fill_cache_item h item tr)) \<and>
         fst (fill_cache_item h (fst (snd (fill_cache_item h item tr))) tr')
           = fst (fill_cache_item h item tr)"
proof (cases "item_api item")
  case None
  then show ?thesis by (simp add: fill_cache_item_def)
next
  case (Some api)
  define resp where "resp = respond h [] (GetDevices api)"
  have step: "fill_cache_item h it t =
      (if truthy (dict_get resp TUYA_RESPONSE_SUCCESS)
       then (case py_iter (dict_get resp TUYA_RESPONSE_RESULT) of
               None \<Rightarrow> (None, it, t @ [GetDevices api])
             | Some devices \<Rightarrow>
                 (fst (fill_devices h api devices (item_credentials it) (t @ [GetDevices api])),
                  it\<lparr>item_credentials :=
                       fst (snd (fill_devices h api devices (item_credentials it)
                                   (t @ [GetDevices api])))\<rparr>,
                  snd (snd (fill_devices h api devices (item_credentials it)
                              (t @ [GetDevices api])))))
       else (None, it, t @ [GetDevices api]))" if "item_api it = Some api" for it t
  proof -
    have "respond h t (GetDevices api) = resp"
      unfolding resp_def by (rule stateless)
    then show ?thesis using that
      by (simp add: fill_cache_item_def Let_def split_beta split: option.splits)
  qed
  show ?thesis
  proof (cases "truthy (dict_get resp TUYA_RESPONSE_SUCCESS)")
    case False
    then show ?thesis using Some by (simp add: step)
  next
    case True
    show ?thesis
    proof (cases "py_iter (dict_get resp TUYA_RESPONSE_RESULT)")
      case None
      then show ?thesis using \<open>item_api item = Some api\<close> True by (simp add: step)
    next
      case (Some devices)
      show ?thesis
        using \<open>item_api item = Some api\<close> True Some
          fill_devices_twice [OF stateless, of api devices "item_credentials item"
            "tr @ [GetDevices api]" "tr' @ [GetDevices api]"]
        by (simp add: step)
    qed
  qed
qed

text \<open>
  C7. Filling a cache item never removes an address from its table: every address of
  the table before the fill is an address of the table after it, also when the fill ends
  with an exception. And when the remote service answers a request the same way whenever
  it is asked, filling the item a second time leaves the item as the first fill made it
  and ends the same way.
\<close>

theorem fill_monotonic_idempotent:
  "fst ` set (item_credentials item)
     \<subseteq> fst ` set (item_credentials (fst (snd (fill_cache_item h item tr)))) \<and>
   ((\<forall>t t' r. respond h t r = respond h t' r) \<longrightarrow>
      fst (snd (fill_cache_item h (fst (snd (fill_cache_item h item tr))) tr'))
        = fst (snd (fill_cache_item h item tr)) \<and>
      fst (fill_cache_item h (fst (snd (fill_cache_item h item tr))) tr')
        = fst (fill_cache_item h item tr))"
  using fill_cache_item_keys [of item h tr] fill_cache_item_twice [of h item tr tr']
  by blast

lemma fill_stale_item:
  "map fst (item_credentials (fst (snd (fill_cache_item hass_ok stale_item []))))
     = [''11:22:33:44:55:66'', ''AA:BB:CC:DD:EE:FF'']"
  by code_simp

theorem fill_monotonic_idempotent_witness:
  "map fst (item_credentials (fst (snd (fill_cache_item hass_ok stale_item []))))
     = [''11:22:33:44:55:66'', ''AA:BB:CC:DD:EE:FF''] \<and>
   fst (snd (fill_cache_item hass_ok (fst (snd (fill_cache_item hass_ok stale_item [])))
     (snd (snd (fill_cache_item hass_ok stale_item [])))))
     = fst (snd (fill_cache_item hass_ok stale_item []))"
  using fill_monotonic_idempotent [of stale_item hass_ok "[]"
      "snd (snd (fill_cache_item hass_ok stale_item []))"] fill_stale_item
  by (simp add: hass_ok_def remote_ok_def)

subsection \<open>The sweep\<close>

lemma dict_update_distinct_append:
  "distinct (map fst (d @ e)) \<Longrightarrow> dict_update d e = d @ e"
proof (induction e arbitrary: d)
  case Nil
  then show ?case by simp
next
  case (Cons kv e)
  have "fst kv \<notin> fst ` set d" using Cons.prems by auto
  then have "AList.update (fst kv) (snd kv) d = d @ [kv]"
    by (simp add: update_absent)
  moreover have "distinct (map fst ((d @ [kv]) @ e))" using Cons.prems by simp
  ultimately show ?case using Cons.IH [of "d @ [kv]"] by simp
qed

lemma dict_update_empty_distinct:
  "distinct (map fst e) \<Longrightarrow> dict_update [] e = e"
  using dict_update_distinct_append [of "[]" e] by simp

lemma logins_append [simp]: "logins (xs @ ys) = logins xs + logins ys"
  by (simp add: logins_def)

lemma fetches_append [simp]: "fetches (xs @ ys) = fetches xs + fetches ys"
  by (simp add: fetches_def)

lemma counts_login_request [simp]:
  "logins [login_request d] = 1" "fetches [login_request d] = 0"
  by (simp_all add: logins_def fetches_def login_request_def)

lemma fill_devices_counts:
  "logins (snd (snd (fill_devices h api devices creds tr))) = logins tr \<and>
   fetches (snd (snd (fill_devices h api devices creds tr))) = fetches tr"
proof (induction devices arbitrary: creds tr)
  case Nil
  then show ?case by simp
next
  case (Cons device devices)
  show ?case
  proof (cases device)
    case (PDict dev)
    have c: "logins (tr @ [GetFactoryInfo api (dict_get dev ''id'')]) = logins tr \<and>
             fetches (tr @ [GetFactoryInfo api (dict_get dev ''id'')]) = fetches tr"
      by (simp add: logins_def fetches_def)
    show ?thesis using PDict c Cons.IH
      by (simp add: Let_def del: logins_append fetches_append split: sum.splits option.splits)
  qed simp_all
qed

lemma fill_cache_item_counts:
  "item_api item = Some api \<Longrightarrow>
   logins (snd (snd (fill_cache_item h item tr))) = logins tr \<and>
   fetches (snd (snd (fill_cache_item h item tr))) = fetches tr + 1"
  using fill_devices_counts [of h api _ "item_credentials item" "tr @ [GetDevices api]"]
  by (simp add: fill_cache_item_def Let_def split_beta logins_def fetches_def
      split: option.splits)
lemma complete_login_facts:
  assumes "set CONF_TUYA_LOGIN_KEYS \<subseteq> fst ` set e"
  shows "e \<noteq> []" and "\<exists>u. map_of e CONF_USERNAME = Some u"
    and "list_all (\<lambda>k. k \<in> fst ` set e) CONF_TUYA_LOGIN_KEYS"
proof -
  have u: "CONF_USERNAME \<in> fst ` set e"
    using assms by (auto simp: CONF_TUYA_LOGIN_KEYS_def)
  then show "e \<noteq> []" by auto
  from u show "\<exists>u. map_of e CONF_USERNAME = Some u"
    by (metis map_of_eq_None_iff not_Some_eq)
  show "list_all (\<lambda>k. k \<in> fst ` set e) CONF_TUYA_LOGIN_KEYS"
    using assms by (auto simp: list_all_iff)
qed

lemma sweep_entry_unfold:
  assumes "distinct (map fst e)" and "set CONF_TUYA_LOGIN_KEYS \<subseteq> fst ` set e"
  shows "sweep_entry h data e w =
     (if (case map_of (cache w) (get_cache_key e) of
            None \<Rightarrow> True | Some it \<Rightarrow> length (item_credentials it) = 0)
      then (case login_impl h data ENABLE (w\<lparr>heap := (heap w)(data := e)\<rparr>) of
              (Inl er, w1) \<Rightarrow> (Some er, w1)
            | (Inr response, w1) \<Rightarrow>
                (if is_login_success response
                 then (case map_of (cache w1) (get_cache_key e) of
                         None \<Rightarrow> (None, w1)
                       | Some item1 \<Rightarrow>
                           (if length (item_credentials item1) = 0
                            then fill_cached h (get_cache_key e) item1 w1
                            else (None, w1)))
                 else (None, w1)))
      else (None, w\<lparr>heap := (heap w)(data := e)\<rparr>))"
  using complete_login_facts(3) [OF assms(2)]
  by (simp add: sweep_entry_def Let_def dict_update_empty_distinct [OF assms(1)])

lemma sweep_entry_skip:
  assumes "distinct (map fst e)" and "set CONF_TUYA_LOGIN_KEYS \<subseteq> fst ` set e"
    and "map_of (cache w) (get_cache_key e) = Some item" and "item_credentials item \<noteq> []"
  shows "sweep_entry h data e w = (None, w\<lparr>heap := (heap w)(data := e)\<rparr>)"
  using assms(3,4) by (simp add: sweep_entry_unfold [OF assms(1,2)])

lemma sweep_entry_unsized:
  assumes "distinct (map fst e)" and "set CONF_TUYA_LOGIN_KEYS \<subseteq> fst ` set e"
    and "case map_of (cache w) (get_cache_key e) of
           None \<Rightarrow> True | Some it \<Rightarrow> item_credentials it = []"
    and "py_len (dict_get_default e CONF_ACCESS_SECRET (PStr [])) = None"
  shows "sweep_entry h data e w = (Some TypeError, w\<lparr>heap := (heap w)(data := e)\<rparr>)"
proof -
  have l: "login_impl h data ENABLE (w\<lparr>heap := (heap w)(data := e)\<rparr>) =
      (Inl TypeError, w\<lparr>heap := (heap w)(data := e)\<rparr>)"
    using complete_login_facts(1) [OF assms(2)] assms(4)
    by (intro login_impl_unsized) simp_all
  show ?thesis
    using assms(3) by (simp add: sweep_entry_unfold [OF assms(1,2)] l split: option.splits)
qed

lemma sweep_entry_failed_login:
  assumes "distinct (map fst e)" and "set CONF_TUYA_LOGIN_KEYS \<subseteq> fst ` set e"
    and "case map_of (cache w) (get_cache_key e) of
           None \<Rightarrow> True | Some it \<Rightarrow> item_credentials it = []"
    and "py_len (dict_get_default e CONF_ACCESS_SECRET (PStr [])) = Some n"
    and "\<not> is_login_success (respond h (io_trace w) (login_request e))"
  shows "sweep_entry h data e w =
     (None, w\<lparr>heap := (heap w)(data := e), io_trace := io_trace w @ [login_request e]\<rparr>)"
proof -
  obtain u where u: "map_of e CONF_USERNAME = Some u"
    using complete_login_facts(2) [OF assms(2)] by blast
  have l: "login_impl h data ENABLE (w\<lparr>heap := (heap w)(data := e)\<rparr>) =
      (Inr (respond h (io_trace w) (login_request e)),
       w\<lparr>heap := (heap w)(data := e), io_trace := io_trace w @ [login_request e]\<rparr>)"
    using login_impl_failure [of "w\<lparr>heap := (heap w)(data := e)\<rparr>" data n u h ENABLE]
      complete_login_facts(1) [OF assms(2)] assms(4,5) u
    by simp
  show ?thesis
    using assms(3,5) by (simp add: sweep_entry_unfold [OF assms(1,2)] l split: option.splits)
qed

lemma sweep_entry_success:
  assumes "distinct (map fst e)" and "set CONF_TUYA_LOGIN_KEYS \<subseteq> fst ` set e"
    and "case map_of (cache w) (get_cache_key e) of
           None \<Rightarrow> True | Some it \<Rightarrow> item_credentials it = []"
    and "py_len (dict_get_default e CONF_ACCESS_SECRET (PStr [])) = Some n"
    and "is_login_success (respond h (io_trace w) (login_request e))"
  shows "\<exists>item1. item_api item1 \<noteq> None \<and>
     sweep_entry h data e w =
       fill_cached h (get_cache_key e) item1
         (w\<lparr>heap := (heap w)(data := e), io_trace := io_trace w @ [login_request e],
            cache := AList.update (get_cache_key e) item1 (cache w)\<rparr>)"
proof -
  define api where "api = (login_api e)
      \<lparr>api_token_info := respond h (io_trace w) (login_request e)\<rparr>"
  define item1 where "item1 =
     (case map_of (cache w) (get_cache_key e) of
        Some cache_item \<Rightarrow> cache_item\<lparr>item_api := Some api, item_login := data\<rparr>
      | None \<Rightarrow> \<lparr>item_api = Some api, item_login = data, item_credentials = []\<rparr>)"
  define w1 where "w1 = w\<lparr>heap := (heap w)(data := e),
       io_trace := io_trace w @ [login_request e],
       cache := AList.update (get_cache_key e) item1 (cache w)\<rparr>"
  obtain u where u: "map_of e CONF_USERNAME = Some u"
    using complete_login_facts(2) [OF assms(2)] by blast
  have l: "login_impl h data ENABLE (w\<lparr>heap := (heap w)(data := e)\<rparr>) =
      (Inr (respond h (io_trace w) (login_request e)), w1)"
    using login_impl_success_enable [of "w\<lparr>heap := (heap w)(data := e)\<rparr>" data n u h]
      complete_login_facts(1) [OF assms(2)] assms(4,5) u
    by (simp add: w1_def item1_def api_def split: option.splits)
  have c1: "map_of (cache w1) (get_cache_key e) = Some item1"
    by (simp add: w1_def update_conv')
  have empty1: "item_credentials item1 = []"
    using assms(3) by (simp add: item1_def split: option.splits)
  have api1: "item_api item1 \<noteq> None"
    by (simp add: item1_def split: option.splits)
  have "sweep_entry h data e w = fill_cached h (get_cache_key e) item1 w1"
    using assms(3,5) by (simp add: sweep_entry_unfold [OF assms(1,2)] l c1 empty1 split: option.splits)
  then show ?thesis using api1 unfolding w1_def by blast
qed
lemma sweep_append:
  "sweep h data (xs @ ys) w =
     (case sweep h data xs w of
        (Some e, w1) \<Rightarrow> (Some e, w1)
      | (None, w1) \<Rightarrow> sweep h data ys w1)"
  by (induction xs arbitrary: w) (auto split: prod.splits option.splits)

lemma build_cache_sweep:
  "build_cache h w =
     sweep h (next_ref w) (tuya_entries h @ ble_entries h)
       (w\<lparr>heap := (heap w)(next_ref w := []), next_ref := next_ref w + 1\<rparr>)"
  by (simp add: build_cache_def Let_def sweep_append split: prod.splits option.splits)

lemma fill_cached_effects:
  assumes "item_api item = Some api" and "fill_cached h key item w = (r, w')"
  shows "logins (io_trace w') = logins (io_trace w)"
    and "fetches (io_trace w') = fetches (io_trace w) + 1"
    and "heap w' = heap w" and "next_ref w' = next_ref w"
  using assms(2) fill_cache_item_counts [OF assms(1), of h "io_trace w"]
  by (auto simp: fill_cached_def split_beta)

lemma first_record_logs_in_once:
  assumes dist: "distinct (map fst e)" and complete: "set CONF_TUYA_LOGIN_KEYS \<subseteq> fst ` set e"
    and fresh: "case map_of (cache w) (get_cache_key e) of
                  None \<Rightarrow> True | Some it \<Rightarrow> item_credentials it = []"
    and run: "sweep_entry h data e w = (None, w1)"
    and filled: "case map_of (cache w1) (get_cache_key e) of
                   None \<Rightarrow> False | Some it \<Rightarrow> item_credentials it \<noteq> []"
  shows "logins (io_trace w1) = logins (io_trace w) + 1 \<and>
         fetches (io_trace w1) = fetches (io_trace w) + 1"
proof (cases "py_len (dict_get_default e CONF_ACCESS_SECRET (PStr []))")
  case None
  then show ?thesis
    using sweep_entry_unsized [OF dist complete fresh, of h data] run by simp
next
  case (Some n)
  show ?thesis
  proof (cases "is_login_success (respond h (io_trace w) (login_request e))")
    case False
    have "w1 = w\<lparr>heap := (heap w)(data := e), io_trace := io_trace w @ [login_request e]\<rparr>"
      using sweep_entry_failed_login [OF dist complete fresh Some False, of data] run by simp
    then have "cache w1 = cache w" by simp
    then show ?thesis using fresh filled by (simp split: option.splits)
  next
    case True
    obtain item1 api where api: "item_api item1 = Some api"
      and s: "sweep_entry h data e w =
         fill_cached h (get_cache_key e) item1
           (w\<lparr>heap := (heap w)(data := e), io_trace := io_trace w @ [login_request e],
              cache := AList.update (get_cache_key e) item1 (cache w)\<rparr>)"
      using sweep_entry_success [OF dist complete fresh Some True, of data] by auto
    show ?thesis
      using fill_cached_effects(1,2) [OF api, of h "get_cache_key e" _ None w1] s run
      by simp
  qed
qed

lemma shared_key_sweep:
  assumes d1: "distinct (map fst e1)" and d2: "distinct (map fst e2)"
    and c1: "set CONF_TUYA_LOGIN_KEYS \<subseteq> fst ` set e1"
    and c2: "set CONF_TUYA_LOGIN_KEYS \<subseteq> fst ` set e2"
    and same: "\<forall>k \<in> set CONF_TUYA_LOGIN_KEYS. dict_get e1 k = dict_get e2 k"
    and entries: "tuya_entries h @ ble_entries h = [e1, e2]"
    and fresh: "case map_of (cache w) (get_cache_key e1) of
                  None \<Rightarrow> True | Some it \<Rightarrow> item_credentials it = []"
    and run: "sweep_entry h (next_ref w) e1
                (w\<lparr>heap := (heap w)(next_ref w := []), next_ref := next_ref w + 1\<rparr>) = (None, w1)"
    and filled: "case map_of (cache w1) (get_cache_key e1) of
                   None \<Rightarrow> False | Some it \<Rightarrow> item_credentials it \<noteq> []"
  shows "build_cache h w = (None, w1\<lparr>heap := (heap w1)(next_ref w := e2)\<rparr>) \<and>
         logins (io_trace w1) = logins (io_trace w) + 1 \<and>
         fetches (io_trace w1) = fetches (io_trace w) + 1"
proof -
  have key: "get_cache_key e2 = get_cache_key e1"
    using same by (intro get_cache_key_cong) simp
  obtain item where item: "map_of (cache w1) (get_cache_key e2) = Some item"
    and ne: "item_credentials item \<noteq> []"
    using filled by (auto simp: key split: option.splits)
  have second: "sweep_entry h (next_ref w) e2 w1 = (None, w1\<lparr>heap := (heap w1)(next_ref w := e2)\<rparr>)"
    by (rule sweep_entry_skip [OF d2 c2 item ne])
  have counts: "logins (io_trace w1) = logins (io_trace w) + 1 \<and>
         fetches (io_trace w1) = fetches (io_trace w) + 1"
    using first_record_logs_in_once [OF d1 c1 _ run filled] fresh by simp
  show ?thesis
    using run second counts by (simp add: build_cache_sweep entries)
qed

lemma failed_login_continues:
  assumes "distinct (map fst e)" and "set CONF_TUYA_LOGIN_KEYS \<subseteq> fst ` set e"
    and "case map_of (cache w) (get_cache_key e) of
           None \<Rightarrow> True | Some it \<Rightarrow> item_credentials it = []"
    and "py_len (dict_get_default e CONF_ACCESS_SECRET (PStr [])) = Some n"
    and "\<not> is_login_success (respond h (io_trace w) (login_request e))"
  shows "sweep h data (e # es) w =
     sweep h data es
       (w\<lparr>heap := (heap w)(data := e), io_trace := io_trace w @ [login_request e]\<rparr>)"
  by (simp add: sweep_entry_failed_login [OF assms])
text \<open>
  C4. Two records with distinct keys each, the same six login fields and all of them
  present, make up the two lists of \<open>build_cache\<close>. When the cache holds no table, or
  an empty one, for their key, and the round of the first record ends without an
  exception and leaves a table that is not empty, then \<open>build_cache\<close> ends without an
  exception, the round of the second record only refills the shared dictionary, and the
  requests made contain exactly one more login and one more fetch of the device list
  than before. And a record whose login the remote service rejects does not end the
  sweep: the sweep goes on with the remaining records.
\<close>

theorem build_cache_shared_key:
  "(distinct (map fst e1) \<and> distinct (map fst e2) \<and>
    set CONF_TUYA_LOGIN_KEYS \<subseteq> fst ` set e1 \<and> set CONF_TUYA_LOGIN_KEYS \<subseteq> fst ` set e2 \<and>
    (\<forall>k \<in> set CONF_TUYA_LOGIN_KEYS. dict_get e1 k = dict_get e2 k) \<and>
    tuya_entries h @ ble_entries h = [e1, e2] \<and>
    (case map_of (cache w) (get_cache_key e1) of
       None \<Rightarrow> True | Some it \<Rightarrow> item_credentials it = []) \<and>
    sweep_entry h (next_ref w) e1
      (w\<lparr>heap := (heap w)(next_ref w := []), next_ref := next_ref w + 1\<rparr>) = (None, w1) \<and>
    (case map_of (cache w1) (get_cache_key e1) of
       None \<Rightarrow> False | Some it \<Rightarrow> item_credentials it \<noteq> [])
    \<longrightarrow>
      build_cache h w = (None, w1\<lparr>heap := (heap w1)(next_ref w := e2)\<rparr>) \<and>
      logins (io_trace w1) = logins (io_trace w) + 1 \<and>
      fetches (io_trace w1) = fetches (io_trace w) + 1) \<and>
   (distinct (map fst e) \<and> set CONF_TUYA_LOGIN_KEYS \<subseteq> fst ` set e \<and>
    (case map_of (cache w') (get_cache_key e) of
       None \<Rightarrow> True | Some it \<Rightarrow> item_credentials it = []) \<and>
    py_len (dict_get_default e CONF_ACCESS_SECRET (PStr [])) = Some n \<and>
    \<not> is_login_success (respond h (io_trace w') (login_request e))
    \<longrightarrow>
      sweep h data (e # es) w' =
        sweep h data es
          (w'\<lparr>heap := (heap w')(data := e), io_trace := io_trace w' @ [login_request e]\<rparr>))"
proof (intro conjI impI)
  assume a: "distinct (map fst e1) \<and> distinct (map fst e2) \<and>
    set CONF_TUYA_LOGIN_KEYS \<subseteq> fst ` set e1 \<and> set CONF_TUYA_LOGIN_KEYS \<subseteq> fst ` set e2 \<and>
    (\<forall>k \<in> set CONF_TUYA_LOGIN_KEYS. dict_get e1 k = dict_get e2 k) \<and>
    tuya_entries h @ ble_entries h = [e1, e2] \<and>
    (case map_of (cache w) (get_cache_key e1) of
       None \<Rightarrow> True | Some it \<Rightarrow> item_credentials it = []) \<and>
    sweep_entry h (next_ref w) e1
      (w\<lparr>heap := (heap w)(next_ref w := []), next_ref := next_ref w + 1\<rparr>) = (None, w1) \<and>
    (case map_of (cache w1) (get_cache_key e1) of
       None \<Rightarrow> False | Some it \<Rightarrow> item_credentials it \<noteq> [])"
  have r: "build_cache h w = (None, w1\<lparr>heap := (heap w1)(next_ref w := e2)\<rparr>) \<and>
      logins (io_trace w1) = logins (io_trace w) + 1 \<and>
      fetches (io_trace w1) = fetches (io_trace w) + 1"
    using a by (intro shared_key_sweep) blast+
  from r show "build_cache h w = (None, w1\<lparr>heap := (heap w1)(next_ref w := e2)\<rparr>)" by blast
  from r show "logins (io_trace w1) = logins (io_trace w) + 1" by blast
  from r show "fetches (io_trace w1) = fetches (io_trace w) + 1" by blast
next
  assume b: "distinct (map fst e) \<and> set CONF_TUYA_LOGIN_KEYS \<subseteq> fst ` set e \<and>
    (case map_of (cache w') (get_cache_key e) of
       None \<Rightarrow> True | Some it \<Rightarrow> item_credentials it = []) \<and>
    py_len (dict_get_default e CONF_ACCESS_SECRET (PStr [])) = Some n \<and>
    \<not> is_login_success (respond h (io_trace w') (login_request e))"
  show "sweep h data (e # es) w' =
        sweep h data es
          (w'\<lparr>heap := (heap w')(data := e), io_trace := io_trace w' @ [login_request e]\<rparr>)"
    using b by (intro failed_login_continues) blast+
qed

lemma first_round_example:
  "fst (sweep_entry hass_ok (next_ref (world0 [])) login_a
      ((world0 [])\<lparr>heap := (heap (world0 []))(next_ref (world0 []) := []),
                   next_ref := next_ref (world0 []) + 1\<rparr>)) = None"
  "case map_of (cache (snd (sweep_entry hass_ok (next_ref (world0 [])) login_a
      ((world0 [])\<lparr>heap := (heap (world0 []))(next_ref (world0 []) := []),
                   next_ref := next_ref (world0 []) + 1\<rparr>)))) (get_cache_key login_a) of
     None \<Rightarrow> False | Some it \<Rightarrow> item_credentials it \<noteq> []"
  by code_simp+

theorem build_cache_shared_key_witness:
  "fst (build_cache hass_ok (world0 [])) = None \<and>
   logins (io_trace (snd (build_cache hass_ok (world0 [])))) = 1 \<and>
   fetches (io_trace (snd (build_cache hass_ok (world0 [])))) = 1 \<and>
   sweep hass_fail 1 [login_a, login_b] (world0 []) =
     sweep hass_fail 1 [login_b]
       ((world0 [])\<lparr>heap := (heap (world0 []))(1 := login_a),
                    io_trace := [login_request login_a]\<rparr>)"
proof -
  define w1 where "w1 = snd (sweep_entry hass_ok (next_ref (world0 [])) login_a
      ((world0 [])\<lparr>heap := (heap (world0 []))(next_ref (world0 []) := []),
                   next_ref := next_ref (world0 []) + 1\<rparr>))"
  have run: "sweep_entry hass_ok (next_ref (world0 [])) login_a
      ((world0 [])\<lparr>heap := (heap (world0 []))(next_ref (world0 []) := []),
                   next_ref := next_ref (world0 []) + 1\<rparr>) = (None, w1)"
    using first_round_example(1) by (simp add: w1_def prod_eq_iff)
  have filled: "case map_of (cache w1) (get_cache_key login_a) of
     None \<Rightarrow> False | Some it \<Rightarrow> item_credentials it \<noteq> []"
    using first_round_example(2) by (simp add: w1_def)
  have da: "distinct (map fst login_a)" and db: "distinct (map fst login_b)"
    by (simp_all add: login_a_def login_b_def)
  have ca: "set CONF_TUYA_LOGIN_KEYS \<subseteq> fst ` set login_a"
    and cb: "set CONF_TUYA_LOGIN_KEYS \<subseteq> fst ` set login_b"
    by (simp_all add: CONF_TUYA_LOGIN_KEYS_def conf_defs login_a_def login_b_def)
  have same: "\<forall>k \<in> set CONF_TUYA_LOGIN_KEYS. dict_get login_a k = dict_get login_b k"
    by (simp add: CONF_TUYA_LOGIN_KEYS_def conf_defs login_a_def login_b_def dict_get_def)
  have entries: "tuya_entries hass_ok @ ble_entries hass_ok = [login_a, login_b]"
    by (simp add: hass_ok_def)
  have fresh: "case map_of (cache (world0 [])) (get_cache_key login_a) of
       None \<Rightarrow> True | Some it \<Rightarrow> item_credentials it = []"
    by (simp add: world0_def)
  have len: "py_len (dict_get_default login_a CONF_ACCESS_SECRET (PStr [])) = Some 1"
    by (simp add: login_a_def dict_get_default_def conf_defs)
  have fail: "\<not> is_login_success (respond hass_fail (io_trace (world0 []))
                  (login_request login_a))"
    by (simp add: hass_fail_def remote_fail_def is_login_success_def dict_get_default_def
        conf_defs)
  have p1: "build_cache hass_ok (world0 []) =
        (None, w1\<lparr>heap := (heap w1)(next_ref (world0 []) := login_b)\<rparr>) \<and>
      logins (io_trace w1) = logins (io_trace (world0 [])) + 1 \<and>
      fetches (io_trace w1) = fetches (io_trace (world0 [])) + 1"
    using build_cache_shared_key [where ?e1.0 = login_a and ?e2.0 = login_b and h = hass_ok
        and w = "world0 []" and ?w1.0 = w1 and e = login_a and w' = "world0 []" and n = 1]
      da db ca cb same entries fresh run filled
    by blast
  have p2: "sweep hass_fail 1 (login_a # [login_b]) (world0 []) =
        sweep hass_fail 1 [login_b]
          ((world0 [])\<lparr>heap := (heap (world0 []))(1 := login_a),
             io_trace := io_trace (world0 []) @ [login_request login_a]\<rparr>)"
    using build_cache_shared_key [where e = login_a and h = hass_fail and w' = "world0 []"
        and n = 1 and data = 1 and es = "[login_b]"]
      da ca fresh len fail
    by blast
  have t0: "io_trace (world0 []) = []" by (simp add: world0_def)
  show ?thesis using p1 p2 by (simp add: t0 logins_def fetches_def)
qed

end
